theory Spec2Isabelle
  imports Complex_Main
begin

section \<open>Values of the host language\<close>

text \<open>
  A JavaScript number is an IEEE double: a finite value (every double is a real
  number, and comparing two finite doubles is comparing those reals), one of the two
  infinities, or NaN.
\<close>

datatype number = NaN | NegInfinity | Finite real | PosInfinity

text \<open>The relational operators of the language on numbers: any comparison with NaN is false.\<close>

fun js_lt :: "number \<Rightarrow> number \<Rightarrow> bool" where
  "js_lt NaN _ = False"
| "js_lt _ NaN = False"
| "js_lt (Finite x) (Finite y) = (x < y)"
| "js_lt NegInfinity NegInfinity = False"
| "js_lt NegInfinity _ = True"
| "js_lt _ NegInfinity = False"
| "js_lt PosInfinity _ = False"
| "js_lt _ PosInfinity = True"

fun js_le :: "number \<Rightarrow> number \<Rightarrow> bool" where
  "js_le NaN _ = False"
| "js_le _ NaN = False"
| "js_le (Finite x) (Finite y) = (x \<le> y)"
| "js_le NegInfinity _ = True"
| "js_le _ NegInfinity = False"
| "js_le _ PosInfinity = True"
| "js_le PosInfinity _ = False"

text \<open>The environment \<open>process.env\<close>: a variable is a string or is not set.\<close>

type_synonym env = "string \<rightharpoonup> string"

section \<open>pino-logger: severity mapping and mode selection\<close>

text \<open>
  \<open>LogSeverity\<close> of \<open>packages/pino-logger/src/logger.ts\<close>, in the order of the
  cloud logging tiers; \<open>severity_rank\<close> is that order.
\<close>

datatype LogSeverity = DEBUG | INFO | NOTICE | WARNING | ERROR | CRITICAL | ALERT | EMERGENCY

fun severity_rank :: "LogSeverity \<Rightarrow> nat" where
  "severity_rank DEBUG = 0"
| "severity_rank INFO = 1"
| "severity_rank NOTICE = 2"
| "severity_rank WARNING = 3"
| "severity_rank ERROR = 4"
| "severity_rank CRITICAL = 5"
| "severity_rank ALERT = 6"
| "severity_rank EMERGENCY = 7"

text \<open>\<open>pinoLevelToSeverity\<close>, with its four comparisons in the source's order.\<close>

definition pinoLevelToSeverity :: "number \<Rightarrow> LogSeverity" where
  "pinoLevelToSeverity level =
     (if js_lt level (Finite 30) then DEBUG
      else if js_lt level (Finite 40) then INFO
      else if js_lt level (Finite 50) then WARNING
      else if js_lt level (Finite 60) then ERROR
      else CRITICAL)"

text \<open>\<open>isLocalEnvironment\<close> of the pino logger.\<close>

definition isLocalEnvironment :: "env \<Rightarrow> bool" where
  "isLocalEnvironment e =
     (e ''FUNCTIONS_EMULATOR'' = Some ''true'' \<or> e ''NODE_ENV'' = Some ''test''
      \<or> e ''NODE_ENV'' = Some ''development'')"

text \<open>
  \<open>createLogger\<close>: the level defaults to \<open>LOG_LEVEL\<close>, and to \<open>debug\<close> when that is
  not set; the backend is the pretty printer locally and the forwarding destination
  otherwise.
\<close>

datatype pino_logger = PinoPretty string | PinoFirebaseDestination string

definition createLogger :: "env \<Rightarrow> string option \<Rightarrow> pino_logger" where
  "createLogger e level =
     (let l = (case level of Some l \<Rightarrow> l
               | None \<Rightarrow> (case e ''LOG_LEVEL'' of Some l \<Rightarrow> l | None \<Rightarrow> ''debug''))
      in if isLocalEnvironment e then PinoPretty l else PinoFirebaseDestination l)"

section \<open>function-logger: the leveled facade\<close>

text \<open>\<open>getMinLevel\<close>: the switch over \<open>process.env.LOG_LEVEL ?? 'debug'\<close>.\<close>

definition getMinLevel :: "env \<Rightarrow> nat" where
  "getMinLevel e =
     (let logLevel = (case e ''LOG_LEVEL'' of Some l \<Rightarrow> l | None \<Rightarrow> ''debug'')
      in if logLevel = ''debug'' then 2
         else if logLevel = ''info'' then 3
         else if logLevel = ''warn'' then 4
         else if logLevel = ''error'' then 5
         else 0)"

text \<open>
  The exported \<open>logger\<close>: the console logger of the tslog library, built with
  \<open>minLevel: getMinLevel()\<close>, under the same three signals; the runtime's native logger
  otherwise.
\<close>

datatype facade = TSLogger nat | FirebaseLogger

definition logger :: "env \<Rightarrow> facade" where
  "logger e =
     (if e ''FUNCTIONS_EMULATOR'' = Some ''true'' \<or> e ''NODE_ENV'' = Some ''test''
         \<or> e ''NODE_ENV'' = Some ''development''
      then TSLogger (getMinLevel e) else FirebaseLogger)"

text \<open>
  The four leveled methods of the facade and the level ids the console logger gives
  them. The console logger is a library outside the repository; its filter is taken
  from its contract as the specification words it: a message below the minimum level is
  suppressed, any other is emitted. The native logger does not filter.
\<close>

datatype log_method = Debug | Info | Warn | Error

fun method_level :: "log_method \<Rightarrow> nat" where
  "method_level Debug = 2"
| "method_level Info = 3"
| "method_level Warn = 4"
| "method_level Error = 5"

fun emits :: "facade \<Rightarrow> log_method \<Rightarrow> bool" where
  "emits (TSLogger minLevel) m = (\<not> method_level m < minLevel)"
| "emits FirebaseLogger m = True"

section \<open>JSON values\<close>

text \<open>
  The values \<open>JSON.parse\<close> returns, and \<open>undefined\<close>, which reading a missing
  property gives. An object is the list of its own properties; \<open>JSON.parse\<close> builds
  it with each key once.
\<close>

datatype jsvalue =
    JUndefined
  | JNull
  | JBool bool
  | JNumber number
  | JString string
  | JArray "jsvalue list"
  | JObject "(string \<times> jsvalue) list"

text \<open>Truthiness, as \<open>if (x)\<close> tests it.\<close>

fun truthy :: "jsvalue \<Rightarrow> bool" where
  "truthy JUndefined = False"
| "truthy JNull = False"
| "truthy (JBool b) = b"
| "truthy (JNumber NaN) = False"
| "truthy (JNumber (Finite x)) = (x \<noteq> 0)"
| "truthy (JNumber _) = True"
| "truthy (JString s) = (s \<noteq> [])"
| "truthy (JArray _) = True"
| "truthy (JObject _) = True"

section \<open>sentry: capture contexts and the pre-send hook\<close>

text \<open>
  The report event, with the fields the hook and the event processors touch. Each of
  them may be missing on an event.
\<close>

record event =
  extra :: "(string \<rightharpoonup> jsvalue) option"
  tags :: "(string \<rightharpoonup> jsvalue) option"
  contexts :: "(string \<rightharpoonup> jsvalue) option"
  fingerprint :: "string list option"
  mechanism_handled :: "bool option"

text \<open>The capture context an error carries: every field is optional.\<close>

record capture_context =
  cc_extra :: "(string \<rightharpoonup> jsvalue) option"
  cc_tags :: "(string \<rightharpoonup> jsvalue) option"
  cc_contexts :: "(string \<rightharpoonup> jsvalue) option"
  cc_fingerprint :: "string list option"

text \<open>
  A thrown value: an \<open>ErrorWithSentryCaptureContext\<close> (message, capture context,
  cause), any other \<open>Error\<close> (message, cause), or a value that is no error. A missing
  cause is \<open>Value JUndefined\<close>.
\<close>

datatype thrown =
    ErrorWithSentryCaptureContext string capture_context thrown
  | PlainError string thrown
  | Value jsvalue

fun thrown_truthy :: "thrown \<Rightarrow> bool" where
  "thrown_truthy (Value v) = truthy v"
| "thrown_truthy _ = True"

text \<open>
  \<open>{...a, ...b}\<close> where \<open>a\<close> may be missing: the keys of both, \<open>b\<close> winning where
  both have one.
\<close>

definition spread_merge ::
  "(string \<rightharpoonup> jsvalue) option \<Rightarrow> (string \<rightharpoonup> jsvalue) option \<Rightarrow> (string \<rightharpoonup> jsvalue) option" where
  "spread_merge old new =
     (case new of None \<Rightarrow> old
      | Some n \<Rightarrow> Some ((case old of None \<Rightarrow> Map.empty | Some m \<Rightarrow> m) ++ n))"

text \<open>
  Modelled from the spec: the method \<open>beforeSend\<close> of the class
  \<open>ErrorWithSentryCaptureContext\<close> (\<open>error-with-sentry-capture-context.ts\<close>), which
  is not among the sources; only its tests are. From the specification's merge algorithm:
  the extra data is merged into the event's extra data, new keys added and the context's
  value written on a collision (last write wins); the tags the same way; the context
  blocks by key, shallowly; a fingerprint, if present, replaces the event's. A field the
  capture context lacks leaves the event's field as it is.
\<close>

definition beforeSend :: "capture_context \<Rightarrow> event \<Rightarrow> event" where
  "beforeSend cc ev =
     ev\<lparr> extra := spread_merge (extra ev) (cc_extra cc),
         tags := spread_merge (tags ev) (cc_tags cc),
         contexts := spread_merge (contexts ev) (cc_contexts cc),
         fingerprint := (case cc_fingerprint cc of None \<Rightarrow> fingerprint ev | Some f \<Rightarrow> Some f) \<rparr>"

text \<open>
  \<open>processErrorWithSentryCaptureContext\<close> of \<open>init-sentry.ts\<close>: nothing for an
  exception that is no \<open>ErrorWithSentryCaptureContext\<close>; otherwise the exception's own
  \<open>beforeSend\<close>, then the same on its cause when the cause is truthy.
\<close>

fun processErrorWithSentryCaptureContext :: "event \<Rightarrow> thrown \<Rightarrow> event" where
  "processErrorWithSentryCaptureContext ev (ErrorWithSentryCaptureContext msg cc cause) =
     (let ev' = beforeSend cc ev
      in if thrown_truthy cause then processErrorWithSentryCaptureContext ev' cause else ev')"
| "processErrorWithSentryCaptureContext ev (PlainError msg cause) = ev"
| "processErrorWithSentryCaptureContext ev (Value v) = ev"

text \<open>The \<open>beforeSend\<close> hook \<open>initSentry\<close> installs: it returns the processed event.\<close>

definition initSentry_beforeSend :: "event \<Rightarrow> thrown \<Rightarrow> event" where
  "initSentry_beforeSend ev originalException =
     processErrorWithSentryCaptureContext ev originalException"

text \<open>Reading a key of a field that may be missing.\<close>

definition field_get :: "(string \<rightharpoonup> jsvalue) option \<Rightarrow> string \<Rightarrow> jsvalue option" where
  "field_get f k = (case f of None \<Rightarrow> None | Some m \<Rightarrow> m k)"

text \<open>
  The layers of a chain, outermost first: the capture contexts of the exception and of
  its causes for as long as they are \<open>ErrorWithSentryCaptureContext\<close>s.
\<close>

fun layers :: "thrown \<Rightarrow> capture_context list" where
  "layers (ErrorWithSentryCaptureContext msg cc cause) = cc # layers cause"
| "layers (PlainError msg cause) = []"
| "layers (Value v) = []"

text \<open>
  The value the layers give a key of one field (\<open>cc_extra\<close> or \<open>cc_tags\<close>): that of
  the innermost layer that has the key.
\<close>

fun innermost_value ::
  "(capture_context \<Rightarrow> (string \<rightharpoonup> jsvalue) option) \<Rightarrow> capture_context list \<Rightarrow> string \<Rightarrow> jsvalue option" where
  "innermost_value fld [] k = None"
| "innermost_value fld (cc # ccs) k =
     (case innermost_value fld ccs k of
        Some v \<Rightarrow> Some v
      | None \<Rightarrow> field_get (fld cc) k)"

text \<open>The keys a field of a capture context has.\<close>

definition field_keys :: "(string \<rightharpoonup> jsvalue) option \<Rightarrow> string set" where
  "field_keys f = (case f of None \<Rightarrow> {} | Some m \<Rightarrow> dom m)"

text \<open>
  The chain of the repository's own test of the hook: a top error caused by a middle
  error caused by a root error, each with one extra-data key \<open>level\<close> and one tag of
  its own, reported on an event with no fields yet.
\<close>

definition root_context :: capture_context where
  "root_context = \<lparr> cc_extra = Some [''level'' \<mapsto> JString ''root''],
       cc_tags = Some [''root'' \<mapsto> JString ''true''],
       cc_contexts = None, cc_fingerprint = None \<rparr>"

definition middle_context :: capture_context where
  "middle_context = \<lparr> cc_extra = Some [''level'' \<mapsto> JString ''middle''],
       cc_tags = Some [''middle'' \<mapsto> JString ''true''],
       cc_contexts = None, cc_fingerprint = None \<rparr>"

definition top_context :: capture_context where
  "top_context = \<lparr> cc_extra = Some [''level'' \<mapsto> JString ''top''],
       cc_tags = Some [''top'' \<mapsto> JString ''true''],
       cc_contexts = None, cc_fingerprint = None \<rparr>"

definition rootCause :: thrown where
  "rootCause = ErrorWithSentryCaptureContext ''Root cause'' root_context (Value JUndefined)"

definition middleCause :: thrown where
  "middleCause = ErrorWithSentryCaptureContext ''Middle cause'' middle_context rootCause"

definition topError :: thrown where
  "topError = ErrorWithSentryCaptureContext ''Top error'' top_context middleCause"

definition stub_event :: event where
  "stub_event = \<lparr> extra = None, tags = None, contexts = None, fingerprint = None,
       mechanism_handled = None \<rparr>"

section \<open>pino-logger: the forwarding destination\<close>

text \<open>What the code inside the \<open>try\<close> block can throw.\<close>

datatype js_error = SyntaxError | TypeError

text \<open>
  The numeric conversion the language applies to the left operand of \<open><\<close> when the
  right one is a number. For \<open>undefined\<close>, \<open>null\<close>, booleans and numbers it is fixed
  here; for strings, arrays and objects it goes through the language's string grammar
  and the operand's \<open>valueOf\<close>/\<open>toString\<close> (which throws a \<open>TypeError\<close> when an
  object has neither callable), and is the parameter \<open>coerce\<close>.
\<close>

fun ToNumber :: "(jsvalue \<Rightarrow> js_error + number) \<Rightarrow> jsvalue \<Rightarrow> js_error + number" where
  "ToNumber coerce JUndefined = Inr NaN"
| "ToNumber coerce JNull = Inr (Finite 0)"
| "ToNumber coerce (JBool b) = Inr (Finite (if b then 1 else 0))"
| "ToNumber coerce (JNumber n) = Inr n"
| "ToNumber coerce v = coerce v"

text \<open>An array index as a property key: its decimal digits.\<close>

definition digit :: "nat \<Rightarrow> char" where
  "digit d = char_of (d + 48)"

fun index_key :: "nat \<Rightarrow> string" where
  "index_key i = (if 10 \<le> i then index_key (i div 10) @ [digit (i mod 10)] else [digit i])"

text \<open>
  The own enumerable properties of a value, which a rest pattern copies: the members
  of an object, the indexed elements of an array, the indexed characters of a string
  (one property per character), none for a number or a boolean.
\<close>

fun own_properties :: "jsvalue \<Rightarrow> (string \<times> jsvalue) list" where
  "own_properties (JObject kvs) = kvs"
| "own_properties (JArray xs) = zip (map index_key [0..<length xs]) xs"
| "own_properties (JString s) =
     zip (map index_key [0..<length s]) (map (\<lambda>c. JString [c]) s)"
| "own_properties _ = []"

text \<open>
  Reading one of the five destructured names off a value that is not \<open>null\<close>: an
  object's own member, and \<open>undefined\<close> where there is none (no prototype defines any
  of the five names).
\<close>

fun read_field :: "jsvalue \<Rightarrow> string \<Rightarrow> jsvalue" where
  "read_field (JObject kvs) k = (case map_of kvs k of None \<Rightarrow> JUndefined | Some v \<Rightarrow> v)"
| "read_field _ k = JUndefined"

text \<open>\<open>a ?? b\<close>: \<open>b\<close> when \<open>a\<close> is \<open>null\<close> or \<open>undefined\<close>.\<close>

fun nullish_or :: "jsvalue \<Rightarrow> jsvalue \<Rightarrow> jsvalue" where
  "nullish_or JUndefined d = d"
| "nullish_or JNull d = d"
| "nullish_or v d = v"

text \<open>Writing a property of an object under construction: a key it has keeps its place.\<close>

fun set_property :: "string \<Rightarrow> jsvalue \<Rightarrow> (string \<times> jsvalue) list \<Rightarrow> (string \<times> jsvalue) list" where
  "set_property k v [] = [(k, v)]"
| "set_property k v ((k', v') # kvs) =
     (if k = k' then (k, v) # kvs else (k', v') # set_property k v kvs)"

text \<open>\<open>{...obj, ...rest}\<close>: the properties of \<open>rest\<close> are written in order.\<close>

definition spread_into :: "(string \<times> jsvalue) list \<Rightarrow> (string \<times> jsvalue) list \<Rightarrow> (string \<times> jsvalue) list" where
  "spread_into obj rest = foldl (\<lambda>acc (k, v). set_property k v acc) obj rest"

fun severity_name :: "LogSeverity \<Rightarrow> string" where
  "severity_name DEBUG = ''DEBUG''"
| "severity_name INFO = ''INFO''"
| "severity_name NOTICE = ''NOTICE''"
| "severity_name WARNING = ''WARNING''"
| "severity_name ERROR = ''ERROR''"
| "severity_name CRITICAL = ''CRITICAL''"
| "severity_name ALERT = ''ALERT''"
| "severity_name EMERGENCY = ''EMERGENCY''"

text \<open>
  The rest pattern of \<open>const { level, time, pid, hostname, msg, ...rest } = log\<close>.
\<close>

definition rest_of :: "jsvalue \<Rightarrow> (string \<times> jsvalue) list" where
  "rest_of parsed =
     filter (\<lambda>(k, v). k \<notin> set [''level'', ''time'', ''pid'', ''hostname'', ''msg''])
       (own_properties parsed)"

text \<open>
  The body of the \<open>try\<close> block after the parse: destructuring \<open>null\<close> throws; the
  severity is computed from the level (the only use of the level is as the left operand
  of \<open><\<close> against numbers, so it is converted to a number, which may throw); the record
  is \<open>{ severity, message: msg ?? '', ...rest }\<close>.
\<close>

definition mapped_record ::
  "(jsvalue \<Rightarrow> js_error + number) \<Rightarrow> jsvalue \<Rightarrow> js_error + (string \<times> jsvalue) list" where
  "mapped_record coerce parsed =
     (if parsed = JNull \<or> parsed = JUndefined then Inl TypeError
      else
        let level = read_field parsed ''level'';
            msg = read_field parsed ''msg'';
            rest = rest_of parsed
        in case ToNumber coerce level of
             Inl e \<Rightarrow> Inl e
           | Inr n \<Rightarrow>
               Inr (spread_into
                      [(''severity'', JString (severity_name (pinoLevelToSeverity n))),
                       (''message'', nullish_or msg (JString []))]
                      rest))"

text \<open>The record the \<open>catch\<close> block forwards.\<close>

definition fallback_record :: "string \<Rightarrow> (string \<times> jsvalue) list" where
  "fallback_record logLine = [(''severity'', JString ''ERROR''), (''message'', JString logLine)]"

text \<open>
  The native logger of the hosting runtime, as the list of the records written to it.
  Its \<open>write\<close> is outside the repository and can throw: it looks the record's severity
  up in its table of severities and fails when there is no entry. Which records it
  accepts is the parameter \<open>accepts\<close>; a write that is accepted appends the record, one
  that throws has written nothing.
\<close>

type_synonym native_log = "(string \<times> jsvalue) list list"

definition firebaseLogger_write ::
  "((string \<times> jsvalue) list \<Rightarrow> bool) \<Rightarrow> (string \<times> jsvalue) list \<Rightarrow> native_log
     \<Rightarrow> js_error + native_log" where
  "firebaseLogger_write accepts entry lg =
     (if accepts entry then Inr (lg @ [entry]) else Inl TypeError)"

text \<open>
  A native logger that accepts exactly the records whose severity is one of the eight
  names of \<open>LogSeverity\<close>: the runtime's table, on records whose severity is a string.
\<close>

definition accepts_listed_severity :: "(string \<times> jsvalue) list \<Rightarrow> bool" where
  "accepts_listed_severity entry =
     (case map_of entry ''severity'' of
        Some (JString n) \<Rightarrow>
          n \<in> set [''DEBUG'', ''INFO'', ''NOTICE'', ''WARNING'', ''ERROR'', ''CRITICAL'',
                    ''ALERT'', ''EMERGENCY'']
      | _ \<Rightarrow> False)"

text \<open>
  \<open>firebaseDestination.write\<close>. \<open>JSON_parse\<close> is the language's parser (\<open>None\<close>
  where it throws a \<open>SyntaxError\<close>). The \<open>try\<close> block holds the parse, the building
  of the record and the native write of it; whatever one of them throws is caught, and
  the \<open>catch\<close> block writes the raw line instead. That second write is not guarded:
  \<open>Inl\<close> is an exception leaving \<open>write\<close>.
\<close>

definition firebaseDestination_write ::
  "(string \<Rightarrow> jsvalue option) \<Rightarrow> (jsvalue \<Rightarrow> js_error + number)
     \<Rightarrow> ((string \<times> jsvalue) list \<Rightarrow> bool) \<Rightarrow> string \<Rightarrow> native_log
     \<Rightarrow> js_error + native_log" where
  "firebaseDestination_write JSON_parse coerce accepts logLine lg =
     (case (case JSON_parse logLine of
              None \<Rightarrow> Inl SyntaxError
            | Some parsed \<Rightarrow>
                (case mapped_record coerce parsed of
                   Inl e \<Rightarrow> Inl e
                 | Inr entry \<Rightarrow> firebaseLogger_write accepts entry lg)) of
        Inr lg' \<Rightarrow> Inr lg'
      | Inl e \<Rightarrow> firebaseLogger_write accepts (fallback_record logLine) lg)"

text \<open>The value the last write of a key among the remaining fields gives it.\<close>

definition last_write :: "(string \<times> jsvalue) list \<Rightarrow> string \<Rightarrow> jsvalue option" where
  "last_write rest k = map_of (rev rest) k"

section \<open>sentry: scopes and the wrappers\<close>

text \<open>
  The scope of the error-tracking SDK, with what the wrappers modelled here set on it:
  tags, context blocks, and the event processors, which run in the order they were
  added.
\<close>

record scope =
  scope_tags :: "string \<rightharpoonup> string"
  scope_contexts :: "string \<rightharpoonup> jsvalue"
  eventProcessors :: "(event \<Rightarrow> event) list"

definition setTag :: "string \<Rightarrow> string \<Rightarrow> scope \<Rightarrow> scope" where
  "setTag k v sc = sc\<lparr>scope_tags := (scope_tags sc)(k \<mapsto> v)\<rparr>"

definition setContext :: "string \<Rightarrow> jsvalue \<Rightarrow> scope \<Rightarrow> scope" where
  "setContext k block sc = sc\<lparr>scope_contexts := (scope_contexts sc)(k \<mapsto> block)\<rparr>"

definition addEventProcessor :: "(event \<Rightarrow> event) \<Rightarrow> scope \<Rightarrow> scope" where
  "addEventProcessor p sc = sc\<lparr>eventProcessors := eventProcessors sc @ [p]\<rparr>"

text \<open>\<open>addExceptionMechanism(event, { handled })\<close> of the SDK's core.\<close>

definition addExceptionMechanism :: "event \<Rightarrow> bool \<Rightarrow> event" where
  "addExceptionMechanism ev h = ev\<lparr>mechanism_handled := Some h\<rparr>"

text \<open>\<open>markEventUnhandled\<close>: adds the processor and returns the scope it was given.\<close>

definition markEventUnhandled :: "scope \<Rightarrow> scope" where
  "markEventUnhandled sc = addEventProcessor (\<lambda>ev. addExceptionMechanism ev False) sc"

text \<open>
  How an awaited promise settles. A handler is a function from the state it starts in
  to its outcome and the state it leaves; a handler whose promise never settles is not
  modelled, the wrapper then never settles either.
\<close>

datatype ('r, 'e) outcome = Resolved 'r | Rejected 'e

text \<open>
  The calls the wrappers make, in the order they are made: to the SDK
  (\<open>startSpan\<close> with the span's name and operation, \<open>withScope\<close>,
  \<open>captureException\<close> with the error and the scope callback, \<open>flush\<close> with its
  timeout) and to the facade's \<open>logger.error\<close>.
\<close>

datatype 'e call =
    StartSpan string string
  | WithScope
  | CaptureException 'e "scope \<Rightarrow> scope"
  | Flush nat
  | LoggerError string 'e

text \<open>
  The state the wrappers act on: the calls made so far and the SDK's current scope.
  The SDK's primitives record the call and do what their contract says: \<open>startSpan\<close>
  runs its callback, \<open>withScope\<close> runs its callback on a fork of the current scope,
  which is current until the callback's promise settles, \<open>captureException\<close> and
  \<open>flush\<close> return.
\<close>

record 'e sdk =
  calls :: "'e call list"
  current_scope :: scope

definition record_call :: "'e call \<Rightarrow> 'e sdk \<Rightarrow> 'e sdk" where
  "record_call c w = w\<lparr>calls := calls w @ [c]\<rparr>"

text \<open>The callback \<open>sentryCaptureUnhandledExceptionWrapper\<close> gives \<open>captureException\<close>.\<close>

definition capture_callback :: "(scope \<Rightarrow> scope) option \<Rightarrow> scope \<Rightarrow> scope" where
  "capture_callback captureContext sc =
     (let sc' = markEventUnhandled sc
      in case captureContext of None \<Rightarrow> sc' | Some f \<Rightarrow> f sc')"

text \<open>
  \<open>sentryCaptureUnhandledExceptionWrapper\<close>: the work's value when it resolves; when
  it rejects, the error is logged unless \<open>NODE_ENV\<close> is \<open>production\<close>, captured, and
  thrown again.
\<close>

definition sentryCaptureUnhandledExceptionWrapper ::
  "env \<Rightarrow> ('e sdk \<Rightarrow> ('r, 'e) outcome \<times> 'e sdk) \<Rightarrow> (scope \<Rightarrow> scope) option
     \<Rightarrow> 'e sdk \<Rightarrow> ('r, 'e) outcome \<times> 'e sdk" where
  "sentryCaptureUnhandledExceptionWrapper e work captureContext w =
     (case work w of
        (Resolved r, w') \<Rightarrow> (Resolved r, w')
      | (Rejected error, w') \<Rightarrow>
          (let w1 = (if e ''NODE_ENV'' \<noteq> Some ''production''
                     then record_call (LoggerError ''Unhandled exception'' error) w' else w');
               w2 = record_call (CaptureException error (capture_callback captureContext)) w1
           in (Rejected error, w2)))"

text \<open>
  \<open>sentryConfigurationWrapper\<close>: inside the span and the forked scope, \<open>configure\<close>
  (which may throw) and then the work; in the \<open>finally\<close>, \<open>flush(5000)\<close>.
\<close>

definition sentryConfigurationWrapper ::
  "string \<times> string \<Rightarrow> (scope \<Rightarrow> 'e + scope) \<Rightarrow> ('e sdk \<Rightarrow> ('r, 'e) outcome \<times> 'e sdk)
     \<Rightarrow> 'e sdk \<Rightarrow> ('r, 'e) outcome \<times> 'e sdk" where
  "sentryConfigurationWrapper context configure work w =
     (let outer = current_scope w;
          w1 = record_call (StartSpan (fst context) (snd context)) w;
          w2 = record_call WithScope w1;
          (result, w3) =
             (case configure (current_scope w2) of
                Inl error \<Rightarrow> (Rejected error, w2)
              | Inr sc \<Rightarrow> work (w2\<lparr>current_scope := sc\<rparr>));
          w4 = w3\<lparr>current_scope := outer\<rparr>
      in (result, record_call (Flush 5000) w4))"

text \<open>The payloads of the triggers, with the fields the wrappers read.\<close>

record EventContext =
  eventId :: jsvalue
  eventType :: string
  resource :: jsvalue
  timestamp :: jsvalue
  params :: jsvalue

record DocumentSnapshot =
  ref_id :: jsvalue
  ref_path :: jsvalue
  snapshot_data :: jsvalue

record Change =
  before :: DocumentSnapshot
  after :: DocumentSnapshot

record CloudEvent =
  ce_id :: jsvalue
  ce_type :: string
  ce_source :: jsvalue
  ce_subject :: jsvalue
  ce_time :: jsvalue
  ce_document :: jsvalue
  ce_data :: jsvalue

text \<open>\<open>sentryInvocationV1Wrapper\<close> and \<open>sentryInvocationV2Wrapper\<close>.\<close>

definition sentryInvocationV1Wrapper ::
  "env \<Rightarrow> string \<Rightarrow> EventContext \<Rightarrow> (scope \<Rightarrow> 'e + scope)
     \<Rightarrow> ('e sdk \<Rightarrow> ('r, 'e) outcome \<times> 'e sdk) \<Rightarrow> 'e sdk \<Rightarrow> ('r, 'e) outcome \<times> 'e sdk" where
  "sentryInvocationV1Wrapper e name context configure work =
     sentryConfigurationWrapper (name, eventType context)
       (\<lambda>sc. case configure sc of
                Inl error \<Rightarrow> Inl error
              | Inr sc1 \<Rightarrow>
                  Inr (setContext ''Firebase Context''
                         (JObject [(''eventId'', eventId context),
                                   (''eventType'', JString (eventType context)),
                                   (''resource'', resource context),
                                   (''timestamp'', timestamp context)])
                         (setTag ''function.name'' name
                            (setTag ''function.version'' ''v1'' sc1))))
       (sentryCaptureUnhandledExceptionWrapper e work None)"

definition sentryInvocationV2Wrapper ::
  "env \<Rightarrow> string \<Rightarrow> CloudEvent \<Rightarrow> (scope \<Rightarrow> 'e + scope)
     \<Rightarrow> ('e sdk \<Rightarrow> ('r, 'e) outcome \<times> 'e sdk) \<Rightarrow> 'e sdk \<Rightarrow> ('r, 'e) outcome \<times> 'e sdk" where
  "sentryInvocationV2Wrapper e name ev configure work =
     sentryConfigurationWrapper (name, ce_type ev)
       (\<lambda>sc. case configure sc of
                Inl error \<Rightarrow> Inl error
              | Inr sc1 \<Rightarrow>
                  Inr (setContext ''Firebase Context''
                         (JObject [(''eventId'', ce_id ev),
                                   (''eventType'', JString (ce_type ev)),
                                   (''source'', ce_source ev),
                                   (''subject'', ce_subject ev),
                                   (''timestamp'', ce_time ev)])
                         (setTag ''function.name'' name
                            (setTag ''function.version'' ''v2'' sc1))))
       (sentryCaptureUnhandledExceptionWrapper e work None)"

text \<open>
  \<open>sentryOnWriteV1Wrapper\<close>. \<open>stringify v n\<close> is the language's
  \<open>JSON.stringify(v, null, n)\<close>.
\<close>

definition sentryOnWriteV1Wrapper ::
  "(jsvalue \<Rightarrow> nat \<Rightarrow> jsvalue) \<Rightarrow> env \<Rightarrow> string
     \<Rightarrow> (Change \<Rightarrow> EventContext \<Rightarrow> 'e sdk \<Rightarrow> ('r, 'e) outcome \<times> 'e sdk)
     \<Rightarrow> Change \<Rightarrow> EventContext \<Rightarrow> 'e sdk \<Rightarrow> ('r, 'e) outcome \<times> 'e sdk" where
  "sentryOnWriteV1Wrapper stringify e name handler change context =
     sentryInvocationV1Wrapper e name context
       (\<lambda>sc. Inr (setContext ''Firestore Document''
                     (JObject [(''param'', params context),
                               (''id'', ref_id (before change)),
                               (''path'', ref_path (before change)),
                               (''before'', stringify (snapshot_data (before change)) 2),
                               (''after'', stringify (snapshot_data (after change)) 2)])
                     sc))
       (handler change context)"

text \<open>\<open>sentryWrapOnDocumentChange\<close>.\<close>

definition sentryWrapOnDocumentChange ::
  "env \<Rightarrow> string \<Rightarrow> (CloudEvent \<Rightarrow> 'e sdk \<Rightarrow> ('r, 'e) outcome \<times> 'e sdk)
     \<Rightarrow> CloudEvent \<Rightarrow> 'e sdk \<Rightarrow> ('r, 'e) outcome \<times> 'e sdk" where
  "sentryWrapOnDocumentChange e name handler ev =
     sentryInvocationV2Wrapper e name ev
       (\<lambda>sc. Inr (setContext ''Firestore Document''
                     (JObject [(''document'', ce_document ev), (''data'', ce_data ev)])
                     sc))
       (handler ev)"

text \<open>Which calls are captures, and which are flushes.\<close>

fun is_capture :: "'e call \<Rightarrow> bool" where
  "is_capture (CaptureException error cb) = True"
| "is_capture _ = False"

fun is_flush :: "'e call \<Rightarrow> bool" where
  "is_flush (Flush ms) = True"
| "is_flush _ = False"

text \<open>
  The state in which the work of \<open>sentryConfigurationWrapper\<close> starts: the span and
  the scope have been opened, and the configured scope is current.
\<close>

definition at_work :: "string \<times> string \<Rightarrow> scope \<Rightarrow> 'e sdk \<Rightarrow> 'e sdk" where
  "at_work context sc w =
     w\<lparr>calls := calls w @ [StartSpan (fst context) (snd context), WithScope],
       current_scope := sc\<rparr>"

text \<open>
  A state with no call made and nothing on the scope, and the event of the repository's
  test of the v2 document-change wrapper.
\<close>

definition empty_scope :: scope where
  "empty_scope = \<lparr> scope_tags = Map.empty, scope_contexts = Map.empty,
       eventProcessors = [] \<rparr>"

definition initial_sdk :: "string sdk" where
  "initial_sdk = \<lparr> calls = [], current_scope = empty_scope \<rparr>"

definition sample_event :: CloudEvent where
  "sample_event = \<lparr> ce_id = JString ''event-123'',
       ce_type = ''google.cloud.firestore.document.v1.written'',
       ce_source = JString ''projects/test/databases/(default)'',
       ce_subject = JString ''documents/collection/doc-123'',
       ce_time = JString ''2023-01-01T00:00:00.000Z'',
       ce_document = JString ''projects/test/databases/(default)/documents/collection/doc-123'',
       ce_data = JObject [(''data'', JString ''test'')] \<rparr>"

text \<open>
  A handler that resolves with the \<open>Firestore Document\<close> block of the scope it runs
  under: what a wrapper returns for it is the block the wrapper has set.
\<close>

definition read_document_block :: "'e sdk \<Rightarrow> (jsvalue option, 'e) outcome \<times> 'e sdk" where
  "read_document_block w = (Resolved (scope_contexts (current_scope w) ''Firestore Document''), w)"

section \<open>Severity mapping\<close>

lemma pinoLevelToSeverity_Finite:
  "pinoLevelToSeverity (Finite x) =
     (if x < 30 then DEBUG else if x < 40 then INFO else if x < 50 then WARNING
      else if x < 60 then ERROR else CRITICAL)"
  by (simp add: pinoLevelToSeverity_def)

lemma pinoLevelToSeverity_mono:
  "js_le a b \<Longrightarrow> severity_rank (pinoLevelToSeverity a) \<le> severity_rank (pinoLevelToSeverity b)"
  by (cases a; cases b) (simp_all add: pinoLevelToSeverity_def)

text \<open>
  C5. The severity of a numeric level follows the half-open ranges \<open>[0,30)\<close> DEBUG,
  \<open>[30,40)\<close> INFO, \<open>[40,50)\<close> WARNING, \<open>[50,60)\<close> ERROR, \<open>[60,\<infinity>)\<close> CRITICAL; the
  mapping is monotonic (a level that is at most another never has a higher tier); and
  the nine boundary levels 29, 30, 39, 40, 49, 50, 59, 60, 1000 map as listed.
\<close>

theorem pinoLevelToSeverity_ranges_monotonic:
  "(\<forall>x. 0 \<le> x \<and> x < 30 \<longrightarrow> pinoLevelToSeverity (Finite x) = DEBUG)
   \<and> (\<forall>x. 30 \<le> x \<and> x < 40 \<longrightarrow> pinoLevelToSeverity (Finite x) = INFO)
   \<and> (\<forall>x. 40 \<le> x \<and> x < 50 \<longrightarrow> pinoLevelToSeverity (Finite x) = WARNING)
   \<and> (\<forall>x. 50 \<le> x \<and> x < 60 \<longrightarrow> pinoLevelToSeverity (Finite x) = ERROR)
   \<and> (\<forall>x. 60 \<le> x \<longrightarrow> pinoLevelToSeverity (Finite x) = CRITICAL)
   \<and> pinoLevelToSeverity PosInfinity = CRITICAL
   \<and> (\<forall>a b. js_le a b \<longrightarrow>
         severity_rank (pinoLevelToSeverity a) \<le> severity_rank (pinoLevelToSeverity b))
   \<and> pinoLevelToSeverity (Finite 29) = DEBUG
   \<and> pinoLevelToSeverity (Finite 30) = INFO
   \<and> pinoLevelToSeverity (Finite 39) = INFO
   \<and> pinoLevelToSeverity (Finite 40) = WARNING
   \<and> pinoLevelToSeverity (Finite 49) = WARNING
   \<and> pinoLevelToSeverity (Finite 50) = ERROR
   \<and> pinoLevelToSeverity (Finite 59) = ERROR
   \<and> pinoLevelToSeverity (Finite 60) = CRITICAL
   \<and> pinoLevelToSeverity (Finite 1000) = CRITICAL"
proof -
  have mono: "\<forall>a b. js_le a b \<longrightarrow>
      severity_rank (pinoLevelToSeverity a) \<le> severity_rank (pinoLevelToSeverity b)"
    using pinoLevelToSeverity_mono by blast
  have inf: "pinoLevelToSeverity PosInfinity = CRITICAL"
    by (simp add: pinoLevelToSeverity_def)
  show ?thesis
    using mono inf by (simp add: pinoLevelToSeverity_Finite)
qed

theorem pinoLevelToSeverity_ranges_monotonic_witness:
  "js_le (Finite 35) (Finite 45)
   \<and> severity_rank (pinoLevelToSeverity (Finite 35)) \<le> severity_rank (pinoLevelToSeverity (Finite 45))
   \<and> pinoLevelToSeverity (Finite 35) = INFO
   \<and> pinoLevelToSeverity (Finite 45) = WARNING
   \<and> pinoLevelToSeverity (Finite 12) = DEBUG
   \<and> pinoLevelToSeverity (Finite 55) = ERROR
   \<and> pinoLevelToSeverity (Finite 75) = CRITICAL"
proof -
  note t = pinoLevelToSeverity_ranges_monotonic
  have a: "js_le (Finite 35) (Finite 45)" by simp
  have "severity_rank (pinoLevelToSeverity (Finite 35))
          \<le> severity_rank (pinoLevelToSeverity (Finite 45))"
    using t a by blast
  moreover have "pinoLevelToSeverity (Finite 35) = INFO"
  proof -
    have "(30::real) \<le> 35 \<and> (35::real) < 40" by simp
    with t show ?thesis by blast
  qed
  moreover have "pinoLevelToSeverity (Finite 45) = WARNING"
  proof -
    have "(40::real) \<le> 45 \<and> (45::real) < 50" by simp
    with t show ?thesis by blast
  qed
  moreover have "pinoLevelToSeverity (Finite 12) = DEBUG"
  proof -
    have "(0::real) \<le> 12 \<and> (12::real) < 30" by simp
    with t show ?thesis by blast
  qed
  moreover have "pinoLevelToSeverity (Finite 55) = ERROR"
  proof -
    have "(50::real) \<le> 55 \<and> (55::real) < 60" by simp
    with t show ?thesis by blast
  qed
  moreover have "pinoLevelToSeverity (Finite 75) = CRITICAL"
  proof -
    have "(60::real) \<le> 75" by simp
    with t show ?thesis by blast
  qed
  ultimately show ?thesis using a by blast
qed

section \<open>The pre-send hook on a chain of causes\<close>

text \<open>The walk applies the layers' capture contexts one after the other, outermost first.\<close>

lemma process_foldl:
  "processErrorWithSentryCaptureContext ev exn = foldl (\<lambda>e cc. beforeSend cc e) ev (layers exn)"
proof (induction exn arbitrary: ev)
  case (ErrorWithSentryCaptureContext msg cc cause)
  show ?case
  proof (cases "thrown_truthy cause")
    case True
    then show ?thesis using ErrorWithSentryCaptureContext by (simp add: Let_def)
  next
    case False
    then obtain v where "cause = Value v" by (cases cause) auto
    then show ?thesis using False by (simp add: Let_def)
  qed
qed simp_all

lemma field_get_spread_merge:
  "field_get (spread_merge old new) k =
     (case field_get new k of Some v \<Rightarrow> Some v | None \<Rightarrow> field_get old k)"
  by (auto simp: field_get_def spread_merge_def map_add_def split: option.splits)

lemma field_keys_spread_merge:
  "field_keys (spread_merge old new) = field_keys old \<union> field_keys new"
  by (auto simp: field_keys_def spread_merge_def split: option.splits)

lemma beforeSend_fields:
  "extra (beforeSend cc ev) = spread_merge (extra ev) (cc_extra cc)"
  "tags (beforeSend cc ev) = spread_merge (tags ev) (cc_tags cc)"
  by (simp_all add: beforeSend_def)

lemma foldl_tags_get:
  "field_get (tags (foldl (\<lambda>e cc. beforeSend cc e) ev ccs)) k =
     (case innermost_value cc_tags ccs k of Some v \<Rightarrow> Some v | None \<Rightarrow> field_get (tags ev) k)"
proof (induction ccs arbitrary: ev)
  case (Cons cc ccs)
  show ?case
    by (simp add: Cons.IH beforeSend_fields field_get_spread_merge split: option.splits)
qed simp

lemma foldl_extra_get:
  "field_get (extra (foldl (\<lambda>e cc. beforeSend cc e) ev ccs)) k =
     (case innermost_value cc_extra ccs k of Some v \<Rightarrow> Some v | None \<Rightarrow> field_get (extra ev) k)"
proof (induction ccs arbitrary: ev)
  case (Cons cc ccs)
  show ?case
    by (simp add: Cons.IH beforeSend_fields field_get_spread_merge split: option.splits)
qed simp

lemma foldl_tags_keys:
  "field_keys (tags (foldl (\<lambda>e cc. beforeSend cc e) ev ccs)) =
     field_keys (tags ev) \<union> (\<Union>cc \<in> set ccs. field_keys (cc_tags cc))"
  by (induction ccs arbitrary: ev) (auto simp: beforeSend_fields field_keys_spread_merge)

lemma foldl_extra_keys:
  "field_keys (extra (foldl (\<lambda>e cc. beforeSend cc e) ev ccs)) =
     field_keys (extra ev) \<union> (\<Union>cc \<in> set ccs. field_keys (cc_extra cc))"
  by (induction ccs arbitrary: ev) (auto simp: beforeSend_fields field_keys_spread_merge)

lemma innermost_value_append:
  "innermost_value fld (xs @ ys) k =
     (case innermost_value fld ys k of Some v \<Rightarrow> Some v | None \<Rightarrow> innermost_value fld xs k)"
  by (induction xs) (auto split: option.splits)

lemma innermost_value_none:
  "(\<forall>c \<in> set cs. field_get (fld c) k = None) \<Longrightarrow> innermost_value fld cs k = None"
  by (induction cs) auto

lemma innermost_value_last_writer:
  assumes "field_get (fld c) k = Some w" "\<forall>d \<in> set post. field_get (fld d) k = None"
  shows "innermost_value fld (pre @ c # post) k = Some w"
  using assms innermost_value_none[of post fld k]
  by (simp add: innermost_value_append)

lemmas chain_defs = topError_def middleCause_def rootCause_def top_context_def
  middle_context_def root_context_def stub_event_def

text \<open>
  C1. On a report whose original exception is a chain of context-carrying errors, the
  pre-send hook applies each layer's capture context, walking from the outermost error
  to the innermost cause. After the walk the keys of the report's tags are those it had
  together with those of every layer; the value of a tag or extra-data key is that of
  the innermost layer that has the key; so on a collision the root layer's value is the
  one in the report.
\<close>

theorem pre_send_walk_innermost_wins:
  "initSentry_beforeSend ev exn = foldl (\<lambda>e cc. beforeSend cc e) ev (layers exn)
   \<and> field_keys (tags (initSentry_beforeSend ev exn))
       = field_keys (tags ev) \<union> (\<Union>cc \<in> set (layers exn). field_keys (cc_tags cc))
   \<and> (\<forall>k. field_get (tags (initSentry_beforeSend ev exn)) k
         = (case innermost_value cc_tags (layers exn) k of
              Some v \<Rightarrow> Some v | None \<Rightarrow> field_get (tags ev) k))
   \<and> (\<forall>k. field_get (extra (initSentry_beforeSend ev exn)) k
         = (case innermost_value cc_extra (layers exn) k of
              Some v \<Rightarrow> Some v | None \<Rightarrow> field_get (extra ev) k))
   \<and> (layers exn \<noteq> [] \<longrightarrow>
        (\<forall>k v. field_get (cc_tags (last (layers exn))) k = Some v
           \<longrightarrow> field_get (tags (initSentry_beforeSend ev exn)) k = Some v)
      \<and> (\<forall>k v. field_get (cc_extra (last (layers exn))) k = Some v
           \<longrightarrow> field_get (extra (initSentry_beforeSend ev exn)) k = Some v))"
proof -
  let ?r = "initSentry_beforeSend ev exn"
  have walk: "?r = foldl (\<lambda>e cc. beforeSend cc e) ev (layers exn)"
    by (simp add: initSentry_beforeSend_def process_foldl)
  have keys: "field_keys (tags ?r)
       = field_keys (tags ev) \<union> (\<Union>cc \<in> set (layers exn). field_keys (cc_tags cc))"
    by (simp only: walk foldl_tags_keys)
  have tg: "\<forall>k. field_get (tags ?r) k
         = (case innermost_value cc_tags (layers exn) k of
              Some v \<Rightarrow> Some v | None \<Rightarrow> field_get (tags ev) k)"
    by (simp only: walk foldl_tags_get) simp
  have ex: "\<forall>k. field_get (extra ?r) k
         = (case innermost_value cc_extra (layers exn) k of
              Some v \<Rightarrow> Some v | None \<Rightarrow> field_get (extra ev) k)"
    by (simp only: walk foldl_extra_get) simp
  have root: "innermost_value fld (layers exn) k = Some v"
    if "layers exn \<noteq> []" "field_get (fld (last (layers exn))) k = Some v" for fld k v
  proof -
    from that(1) have "layers exn = butlast (layers exn) @ last (layers exn) # []"
      by simp
    then show ?thesis
      using innermost_value_last_writer[of fld "last (layers exn)" k v "[]" "butlast (layers exn)"] that(2)
      by simp
  qed
  have r1: "layers exn \<noteq> [] \<longrightarrow>
        (\<forall>k v. field_get (cc_tags (last (layers exn))) k = Some v
           \<longrightarrow> field_get (tags ?r) k = Some v)"
    using tg root[of cc_tags] by simp
  have r2: "layers exn \<noteq> [] \<longrightarrow>
        (\<forall>k v. field_get (cc_extra (last (layers exn))) k = Some v
           \<longrightarrow> field_get (extra ?r) k = Some v)"
    using ex root[of cc_extra] by simp
  show ?thesis using walk keys tg ex r1 r2 by blast
qed

text \<open>The chain of three of the repository's test: \<open>level\<close> is the root's, the tags are all three.\<close>

theorem pre_send_walk_innermost_wins_witness:
  "layers topError \<noteq> []
   \<and> field_get (cc_extra (last (layers topError))) ''level'' = Some (JString ''root'')
   \<and> field_get (extra (initSentry_beforeSend stub_event topError)) ''level'' = Some (JString ''root'')
   \<and> field_keys (tags (initSentry_beforeSend stub_event topError)) = {''top'', ''middle'', ''root''}"
proof -
  have a: "layers topError \<noteq> []" by (simp add: chain_defs)
  have b: "field_get (cc_extra (last (layers topError))) ''level'' = Some (JString ''root'')"
    by (simp add: chain_defs field_get_def)
  have c: "field_get (extra (initSentry_beforeSend stub_event topError)) ''level'' = Some (JString ''root'')"
    using pre_send_walk_innermost_wins[of stub_event topError] a b by blast
  have "field_keys (tags (initSentry_beforeSend stub_event topError))
       = field_keys (tags stub_event) \<union> (\<Union>cc \<in> set (layers topError). field_keys (cc_tags cc))"
    using pre_send_walk_innermost_wins[of stub_event topError] by blast
  then have d: "field_keys (tags (initSentry_beforeSend stub_event topError)) = {''top'', ''middle'', ''root''}"
    by (auto simp: chain_defs field_keys_def)
  show ?thesis using a b c d by blast
qed

text \<open>
  C2 as stated (the first writer of a key wins) fails on the same chain: the top layer
  writes \<open>level\<close> first, and the report carries the root's value, written last.
\<close>

theorem first_writer_wins_counterexample:
  "field_get (cc_extra top_context) ''level'' = Some (JString ''top'')
   \<and> layers topError = [top_context, middle_context, root_context]
   \<and> field_get (extra (initSentry_beforeSend stub_event topError)) ''level'' = Some (JString ''root'')
   \<and> field_get (extra (initSentry_beforeSend stub_event topError)) ''level'' \<noteq> Some (JString ''top'')"
  by (simp add: chain_defs field_get_def initSentry_beforeSend_def beforeSend_def spread_merge_def)

text \<open>
  C2, amended. The chain is walked once, from the outermost layer to the innermost:
  the report is the event after each layer's capture context has been applied exactly
  once, in that order. When merging tags and extra data the last writer wins: the value
  of a key is that of the last layer of the chain that writes it, whatever the layers
  before it wrote.
\<close>

theorem pre_send_walk_once_last_writer_wins:
  "initSentry_beforeSend ev exn = foldl (\<lambda>e cc. beforeSend cc e) ev (layers exn)
   \<and> (\<forall>pre c post k w.
         layers exn = pre @ c # post \<and> field_get (cc_tags c) k = Some w
         \<and> (\<forall>d \<in> set post. field_get (cc_tags d) k = None)
         \<longrightarrow> field_get (tags (initSentry_beforeSend ev exn)) k = Some w)
   \<and> (\<forall>pre c post k w.
         layers exn = pre @ c # post \<and> field_get (cc_extra c) k = Some w
         \<and> (\<forall>d \<in> set post. field_get (cc_extra d) k = None)
         \<longrightarrow> field_get (extra (initSentry_beforeSend ev exn)) k = Some w)"
proof -
  let ?r = "initSentry_beforeSend ev exn"
  have walk: "?r = foldl (\<lambda>e cc. beforeSend cc e) ev (layers exn)"
    by (simp add: initSentry_beforeSend_def process_foldl)
  have tg: "field_get (tags ?r) k = Some w"
    if "layers exn = pre @ c # post" "field_get (cc_tags c) k = Some w"
       "\<forall>d \<in> set post. field_get (cc_tags d) k = None" for pre c post k w
  proof -
    have "innermost_value cc_tags (layers exn) k = Some w"
      using innermost_value_last_writer[of cc_tags c k w post pre] that by simp
    then show ?thesis unfolding walk foldl_tags_get by simp
  qed
  have ex: "field_get (extra ?r) k = Some w"
    if "layers exn = pre @ c # post" "field_get (cc_extra c) k = Some w"
       "\<forall>d \<in> set post. field_get (cc_extra d) k = None" for pre c post k w
  proof -
    have "innermost_value cc_extra (layers exn) k = Some w"
      using innermost_value_last_writer[of cc_extra c k w post pre] that by simp
    then show ?thesis unfolding walk foldl_extra_get by simp
  qed
  show ?thesis using walk tg ex by blast
qed

text \<open>On the chain of three: the middle layer's own tag, and the root's \<open>level\<close>.\<close>

theorem pre_send_walk_once_last_writer_wins_witness:
  "layers topError = [top_context] @ middle_context # [root_context]
   \<and> field_get (cc_tags middle_context) ''middle'' = Some (JString ''true'')
   \<and> field_get (cc_tags root_context) ''middle'' = None
   \<and> field_get (tags (initSentry_beforeSend stub_event topError)) ''middle'' = Some (JString ''true'')
   \<and> layers topError = [top_context, middle_context] @ root_context # []
   \<and> field_get (cc_extra root_context) ''level'' = Some (JString ''root'')
   \<and> field_get (extra (initSentry_beforeSend stub_event topError)) ''level'' = Some (JString ''root'')"
proof -
  note t = pre_send_walk_once_last_writer_wins[of stub_event topError]
  have a: "layers topError = [top_context] @ middle_context # [root_context]"
    by (simp add: chain_defs)
  have b: "field_get (cc_tags middle_context) ''middle'' = Some (JString ''true'')"
    by (simp add: chain_defs field_get_def)
  have c: "\<forall>d \<in> set [root_context]. field_get (cc_tags d) ''middle'' = None"
    by (simp add: chain_defs field_get_def)
  have d: "field_get (tags (initSentry_beforeSend stub_event topError)) ''middle'' = Some (JString ''true'')"
    using t a b c by blast
  have e: "layers topError = [top_context, middle_context] @ root_context # []"
    by (simp add: chain_defs)
  have f: "field_get (cc_extra root_context) ''level'' = Some (JString ''root'')"
    by (simp add: chain_defs field_get_def)
  have g: "\<forall>d \<in> set []. field_get (cc_extra d) ''level'' = None"
    by simp
  have h: "field_get (extra (initSentry_beforeSend stub_event topError)) ''level'' = Some (JString ''root'')"
    using t e f g by blast
  have c': "field_get (cc_tags root_context) ''middle'' = None"
    using c by simp
  show ?thesis using a b c' d e f h by blast
qed

section \<open>Mode selection and level filtering of the loggers\<close>

lemma isLocalEnvironment_cong:
  "e ''FUNCTIONS_EMULATOR'' = e' ''FUNCTIONS_EMULATOR'' \<Longrightarrow> e ''NODE_ENV'' = e' ''NODE_ENV''
     \<Longrightarrow> isLocalEnvironment e = isLocalEnvironment e'"
  by (simp add: isLocalEnvironment_def)

lemma logger_local: "(logger e \<noteq> FirebaseLogger) = isLocalEnvironment e"
  by (simp add: logger_def isLocalEnvironment_def)

lemma createLogger_local:
  "(\<exists>l. createLogger e level = PinoPretty l) = isLocalEnvironment e"
  by (simp add: createLogger_def Let_def)

text \<open>
  C9. Development mode is selected exactly when \<open>FUNCTIONS_EMULATOR\<close> is \<open>"true"\<close>,
  or \<open>NODE_ENV\<close> is \<open>"test"\<close>, or \<open>NODE_ENV\<close> is \<open>"development"\<close>. The selection
  depends on these variables only; setting any one of them to its qualifying value
  selects development mode whatever the other variables hold; and the facade and the
  pino logger select by the same condition.
\<close>

theorem development_mode_selection:
  "(isLocalEnvironment e \<longleftrightarrow>
      (e ''FUNCTIONS_EMULATOR'' = Some ''true'' \<or> e ''NODE_ENV'' = Some ''test''
       \<or> e ''NODE_ENV'' = Some ''development''))
   \<and> (e ''FUNCTIONS_EMULATOR'' = e' ''FUNCTIONS_EMULATOR'' \<and> e ''NODE_ENV'' = e' ''NODE_ENV''
        \<longrightarrow> isLocalEnvironment e = isLocalEnvironment e')
   \<and> isLocalEnvironment (e(''FUNCTIONS_EMULATOR'' \<mapsto> ''true''))
   \<and> isLocalEnvironment (e(''NODE_ENV'' \<mapsto> ''test''))
   \<and> isLocalEnvironment (e(''NODE_ENV'' \<mapsto> ''development''))
   \<and> ((logger e \<noteq> FirebaseLogger) \<longleftrightarrow> isLocalEnvironment e)
   \<and> ((\<exists>l. createLogger e level = PinoPretty l) \<longleftrightarrow> isLocalEnvironment e)"
proof -
  have "isLocalEnvironment (e(''FUNCTIONS_EMULATOR'' \<mapsto> ''true''))"
       "isLocalEnvironment (e(''NODE_ENV'' \<mapsto> ''test''))"
       "isLocalEnvironment (e(''NODE_ENV'' \<mapsto> ''development''))"
    by (simp_all add: isLocalEnvironment_def)
  then show ?thesis
    using isLocalEnvironment_cong[of e e'] logger_local[of e] createLogger_local[of e level]
    by (simp add: isLocalEnvironment_def)
qed

text \<open>
  Two environments that differ in \<open>LOG_LEVEL\<close> only select the same mode, and one
  with \<open>NODE_ENV=production\<close> switches to development mode once the emulator flag is set.
\<close>

theorem development_mode_selection_witness:
  "[''NODE_ENV'' \<mapsto> ''production'', ''LOG_LEVEL'' \<mapsto> ''warn''] ''FUNCTIONS_EMULATOR''
      = [''NODE_ENV'' \<mapsto> ''production''] ''FUNCTIONS_EMULATOR''
   \<and> [''NODE_ENV'' \<mapsto> ''production'', ''LOG_LEVEL'' \<mapsto> ''warn''] ''NODE_ENV''
      = [''NODE_ENV'' \<mapsto> ''production''] ''NODE_ENV''
   \<and> isLocalEnvironment [''NODE_ENV'' \<mapsto> ''production'', ''LOG_LEVEL'' \<mapsto> ''warn'']
      = isLocalEnvironment [''NODE_ENV'' \<mapsto> ''production'']
   \<and> \<not> isLocalEnvironment [''NODE_ENV'' \<mapsto> ''production'']
   \<and> isLocalEnvironment ([''NODE_ENV'' \<mapsto> ''production''](''FUNCTIONS_EMULATOR'' \<mapsto> ''true''))"
proof -
  let ?e = "[''NODE_ENV'' \<mapsto> ''production'', ''LOG_LEVEL'' \<mapsto> ''warn'']"
  let ?e' = "[''NODE_ENV'' \<mapsto> ''production'']"
  note t = development_mode_selection[of ?e ?e' None]
  have a: "?e ''FUNCTIONS_EMULATOR'' = ?e' ''FUNCTIONS_EMULATOR''" by simp
  have b: "?e ''NODE_ENV'' = ?e' ''NODE_ENV''" by simp
  have c: "isLocalEnvironment ?e = isLocalEnvironment ?e'" using t a b by blast
  have d: "\<not> isLocalEnvironment ?e'"
    using development_mode_selection[of ?e' ?e' None] by simp
  have e: "isLocalEnvironment (?e'(''FUNCTIONS_EMULATOR'' \<mapsto> ''true''))"
    using development_mode_selection[of ?e' ?e' None] by blast
  show ?thesis using a b c d e by blast
qed

text \<open>
  C8 as stated fails where \<open>LOG_LEVEL\<close> is not set: the level then defaults to
  \<open>debug\<close>, and the minimum is 2, not 0.
\<close>

theorem getMinLevel_unset_counterexample:
  "getMinLevel Map.empty = 2 \<and> getMinLevel Map.empty \<noteq> 0"
  by (simp add: getMinLevel_def)

text \<open>
  C8, amended. The minimum level is 2 for \<open>debug\<close> and when \<open>LOG_LEVEL\<close> is not set,
  3 for \<open>info\<close>, 4 for \<open>warn\<close>, 5 for \<open>error\<close>, and 0 for any other value. In
  development mode, for each of the four recognised values, a message of a method whose
  level is strictly below the minimum is suppressed and one at or above it is emitted.
\<close>

theorem getMinLevel_mapping_and_filter:
  "getMinLevel e =
     (case e ''LOG_LEVEL'' of
        None \<Rightarrow> 2
      | Some l \<Rightarrow> if l = ''debug'' then 2 else if l = ''info'' then 3
                  else if l = ''warn'' then 4 else if l = ''error'' then 5 else 0)
   \<and> (isLocalEnvironment e \<and> e ''LOG_LEVEL'' = Some l
        \<and> l \<in> {''debug'', ''info'', ''warn'', ''error''} \<longrightarrow>
        (method_level m < getMinLevel e \<longrightarrow> \<not> emits (logger e) m)
      \<and> (getMinLevel e \<le> method_level m \<longrightarrow> emits (logger e) m)
      \<and> {m. emits (logger e) m} =
          (if l = ''debug'' then {Debug, Info, Warn, Error}
           else if l = ''info'' then {Info, Warn, Error}
           else if l = ''warn'' then {Warn, Error}
           else {Error}))"
proof -
  have mapping: "getMinLevel e =
     (case e ''LOG_LEVEL'' of
        None \<Rightarrow> 2
      | Some l \<Rightarrow> if l = ''debug'' then 2 else if l = ''info'' then 3
                  else if l = ''warn'' then 4 else if l = ''error'' then 5 else 0)"
    by (simp add: getMinLevel_def split: option.splits)
  have filter: "(method_level m < getMinLevel e \<longrightarrow> \<not> emits (logger e) m)
      \<and> (getMinLevel e \<le> method_level m \<longrightarrow> emits (logger e) m)
      \<and> {m. emits (logger e) m} =
          (if l = ''debug'' then {Debug, Info, Warn, Error}
           else if l = ''info'' then {Info, Warn, Error}
           else if l = ''warn'' then {Warn, Error}
           else {Error})"
    if loc: "isLocalEnvironment e" and lv: "e ''LOG_LEVEL'' = Some l"
      and rec: "l \<in> {''debug'', ''info'', ''warn'', ''error''}"
  proof -
    have lg: "logger e = TSLogger (getMinLevel e)"
      using loc by (simp add: logger_def isLocalEnvironment_def)
    have em: "emits (logger e) x = (getMinLevel e \<le> method_level x)" for x
      by (simp add: lg not_less)
    have set_eq: "{m. emits (logger e) m} = {m. getMinLevel e \<le> method_level m}"
      using em by simp
    have cases: "{m. n \<le> method_level m} =
        (if n \<le> 2 then {Debug, Info, Warn, Error} else if n = 3 then {Info, Warn, Error}
         else if n = 4 then {Warn, Error} else if n = 5 then {Error} else {})" for n
    proof -
      have "(n \<le> method_level x) =
         (x \<in> (if n \<le> 2 then {Debug, Info, Warn, Error} else if n = 3 then {Info, Warn, Error}
         else if n = 4 then {Warn, Error} else if n = 5 then {Error} else {}))" for x
        by (cases x) auto
      then show ?thesis by blast
    qed
    have "{m. emits (logger e) m} =
          (if l = ''debug'' then {Debug, Info, Warn, Error}
           else if l = ''info'' then {Info, Warn, Error}
           else if l = ''warn'' then {Warn, Error}
           else {Error})"
      using rec lv unfolding set_eq cases by (auto simp: getMinLevel_def)
    then show ?thesis using em by (simp add: not_less)
  qed
  show ?thesis using mapping filter by blast
qed

text \<open>\<open>LOG_LEVEL=warn\<close> under the emulator: \<open>info\<close> is suppressed, \<open>warn\<close> and \<open>error\<close> are emitted.\<close>

theorem getMinLevel_mapping_and_filter_witness:
  "isLocalEnvironment [''FUNCTIONS_EMULATOR'' \<mapsto> ''true'', ''LOG_LEVEL'' \<mapsto> ''warn'']
   \<and> [''FUNCTIONS_EMULATOR'' \<mapsto> ''true'', ''LOG_LEVEL'' \<mapsto> ''warn''] ''LOG_LEVEL'' = Some ''warn''
   \<and> ''warn'' \<in> {''debug'', ''info'', ''warn'', ''error''}
   \<and> getMinLevel [''FUNCTIONS_EMULATOR'' \<mapsto> ''true'', ''LOG_LEVEL'' \<mapsto> ''warn''] = 4
   \<and> method_level Info < getMinLevel [''FUNCTIONS_EMULATOR'' \<mapsto> ''true'', ''LOG_LEVEL'' \<mapsto> ''warn'']
   \<and> \<not> emits (logger [''FUNCTIONS_EMULATOR'' \<mapsto> ''true'', ''LOG_LEVEL'' \<mapsto> ''warn'']) Info
   \<and> {m. emits (logger [''FUNCTIONS_EMULATOR'' \<mapsto> ''true'', ''LOG_LEVEL'' \<mapsto> ''warn'']) m}
       = {Warn, Error}"
proof -
  let ?e = "[''FUNCTIONS_EMULATOR'' \<mapsto> ''true'', ''LOG_LEVEL'' \<mapsto> ''warn'']"
  note t = getMinLevel_mapping_and_filter[of ?e "''warn''" Info]
  have a: "isLocalEnvironment ?e" by (simp add: isLocalEnvironment_def)
  have b: "?e ''LOG_LEVEL'' = Some ''warn''" by simp
  have c: "''warn'' \<in> {''debug'', ''info'', ''warn'', ''error''}" by simp
  have d: "getMinLevel ?e = 4" using t b by simp
  have e: "method_level Info < getMinLevel ?e" using d by simp
  have f: "\<not> emits (logger ?e) Info" using t a b c e by blast
  have "{m. emits (logger ?e) m} =
          (if ''warn'' = ''debug'' then {Debug, Info, Warn, Error}
           else if ''warn'' = ''info'' then {Info, Warn, Error}
           else if ''warn'' = ''warn'' then {Warn, Error}
           else {Error})"
    using t a b c by blast
  then have g: "{m. emits (logger ?e) m} = {Warn, Error}" by simp
  show ?thesis using a b c d e f g by blast
qed

section \<open>The forwarding destination\<close>

lemma map_of_set_property:
  "map_of (set_property k v kvs) k' = (if k' = k then Some v else map_of kvs k')"
  by (induction kvs) auto

lemma last_write_Cons:
  "last_write ((k, v) # rest) k' =
     (case last_write rest k' of Some w \<Rightarrow> Some w | None \<Rightarrow> if k' = k then Some v else None)"
  by (simp add: last_write_def map_add_def split: option.splits)

lemma map_of_spread_into:
  "map_of (spread_into obj rest) k =
     (case last_write rest k of Some v \<Rightarrow> Some v | None \<Rightarrow> map_of obj k)"
proof (induction rest arbitrary: obj)
  case Nil
  show ?case by (simp add: spread_into_def last_write_def)
next
  case (Cons kv rest)
  obtain k' v' where kv: "kv = (k', v')" by (cases kv)
  have "spread_into obj (kv # rest) = spread_into (set_property k' v' obj) rest"
    by (simp add: spread_into_def kv)
  then show ?case
    by (simp add: Cons.IH kv last_write_Cons map_of_set_property split: option.splits)
qed

text \<open>The four paths through \<open>write\<close> when the native logger accepts the fallback.\<close>

lemma write_parse_failure:
  "JSON_parse logLine = None \<Longrightarrow> accepts (fallback_record logLine) \<Longrightarrow>
   firebaseDestination_write JSON_parse coerce accepts logLine lg
     = Inr (lg @ [fallback_record logLine])"
  by (simp add: firebaseDestination_write_def firebaseLogger_write_def)

lemma write_mapped:
  "JSON_parse logLine = Some parsed \<Longrightarrow> mapped_record coerce parsed = Inr r \<Longrightarrow> accepts r \<Longrightarrow>
   firebaseDestination_write JSON_parse coerce accepts logLine lg = Inr (lg @ [r])"
  by (simp add: firebaseDestination_write_def firebaseLogger_write_def)

lemma write_thrown:
  "JSON_parse logLine = Some parsed \<Longrightarrow> mapped_record coerce parsed = Inl e \<Longrightarrow>
   accepts (fallback_record logLine) \<Longrightarrow>
   firebaseDestination_write JSON_parse coerce accepts logLine lg
     = Inr (lg @ [fallback_record logLine])"
  by (simp add: firebaseDestination_write_def firebaseLogger_write_def)

lemma write_rejected:
  "JSON_parse logLine = Some parsed \<Longrightarrow> mapped_record coerce parsed = Inr r \<Longrightarrow> \<not> accepts r \<Longrightarrow>
   accepts (fallback_record logLine) \<Longrightarrow>
   firebaseDestination_write JSON_parse coerce accepts logLine lg
     = Inr (lg @ [fallback_record logLine])"
  by (simp add: firebaseDestination_write_def firebaseLogger_write_def)

lemma write_one_record:
  "accepts (fallback_record logLine) \<Longrightarrow>
   \<exists>entry. firebaseDestination_write JSON_parse coerce accepts logLine lg = Inr (lg @ [entry])"
  by (simp add: firebaseDestination_write_def firebaseLogger_write_def
      split: option.splits sum.splits)

lemma write_fallback_refused:
  "JSON_parse logLine = None \<Longrightarrow> \<not> accepts (fallback_record logLine) \<Longrightarrow>
   firebaseDestination_write JSON_parse coerce accepts logLine lg = Inl TypeError"
  by (simp add: firebaseDestination_write_def firebaseLogger_write_def)

lemma mapped_record_fields:
  assumes "parsed \<noteq> JNull" "parsed \<noteq> JUndefined"
    and "ToNumber coerce (read_field parsed ''level'') = Inr n"
  shows "\<exists>r. mapped_record coerce parsed = Inr r
     \<and> map_of r ''severity'' =
         Some (case last_write (rest_of parsed) ''severity'' of
                 Some s \<Rightarrow> s | None \<Rightarrow> JString (severity_name (pinoLevelToSeverity n)))
     \<and> map_of r ''message'' =
         Some (case last_write (rest_of parsed) ''message'' of
                 Some m \<Rightarrow> m | None \<Rightarrow> nullish_or (read_field parsed ''msg'') (JString []))
     \<and> (\<forall>k. k \<noteq> ''severity'' \<and> k \<noteq> ''message'' \<longrightarrow> map_of r k = last_write (rest_of parsed) k)"
  using assms
  by (simp add: mapped_record_def Let_def map_of_spread_into split: option.splits)

lemma accepts_listed_fallback: "accepts_listed_severity (fallback_record logLine)"
  by (simp add: accepts_listed_severity_def fallback_record_def)

lemma accepts_listed_mapped_severity:
  "map_of r ''severity'' = Some (JString (severity_name s)) \<Longrightarrow> accepts_listed_severity r"
  by (cases s) (simp_all add: accepts_listed_severity_def)

text \<open>
  C4 as stated fails on the line \<open>null\<close>: the parse succeeds, destructuring the
  result throws, and the record forwarded is the raw-line fallback, not a mapped one.
\<close>

theorem write_null_line_counterexample:
  "(\<lambda>s. if s = ''null'' then Some JNull else None) ''null'' = Some JNull
   \<and> mapped_record (\<lambda>v. Inr NaN) JNull = Inl TypeError
   \<and> firebaseDestination_write (\<lambda>s. if s = ''null'' then Some JNull else None) (\<lambda>v. Inr NaN)
        accepts_listed_severity ''null'' []
      = Inr [[(''severity'', JString ''ERROR''), (''message'', JString ''null'')]]"
  by (simp add: firebaseDestination_write_def firebaseLogger_write_def mapped_record_def
      fallback_record_def accepts_listed_severity_def)

text \<open>
  C4, amended. For every input line, and every native logger that accepts the fallback
  record (severity ERROR, which is in the runtime's table), the write throws nothing and
  forwards exactly one record: the mapped structured record when the line parses,
  building the record throws nothing (the parsed value is not \<open>null\<close> and its level
  converts to a number) and the native logger accepts it; the record with severity
  ERROR and the raw line as message when the parse fails, and also when the line parses
  to \<open>null\<close>, building the record throws, or the native logger throws on the mapped
  record. The mapped record has the severity of the level and the message
  \<open>msg ?? ''\<close>, each replaced by a remaining field of the same name if there is one,
  and the remaining fields; with no remaining field named \<open>severity\<close> its severity is
  one of the eight names.
\<close>

theorem write_never_throws_one_record:
  "(accepts (fallback_record logLine)
      \<longrightarrow> (\<exists>entry. firebaseDestination_write JSON_parse coerce accepts logLine lg
                    = Inr (lg @ [entry])))
   \<and> accepts_listed_severity (fallback_record logLine)
   \<and> (\<forall>parsed r. JSON_parse logLine = Some parsed \<and> mapped_record coerce parsed = Inr r
          \<and> accepts r
         \<longrightarrow> firebaseDestination_write JSON_parse coerce accepts logLine lg = Inr (lg @ [r]))
   \<and> (\<forall>parsed n. parsed \<noteq> JNull \<and> parsed \<noteq> JUndefined
          \<and> ToNumber coerce (read_field parsed ''level'') = Inr n
         \<longrightarrow> (\<exists>r. mapped_record coerce parsed = Inr r
               \<and> map_of r ''severity'' =
                   Some (case last_write (rest_of parsed) ''severity'' of
                           Some s \<Rightarrow> s
                         | None \<Rightarrow> JString (severity_name (pinoLevelToSeverity n)))
               \<and> map_of r ''message'' =
                   Some (case last_write (rest_of parsed) ''message'' of
                           Some m \<Rightarrow> m
                         | None \<Rightarrow> nullish_or (read_field parsed ''msg'') (JString []))
               \<and> (\<forall>k. k \<noteq> ''severity'' \<and> k \<noteq> ''message''
                     \<longrightarrow> map_of r k = last_write (rest_of parsed) k)
               \<and> (last_write (rest_of parsed) ''severity'' = None
                     \<longrightarrow> accepts_listed_severity r)))
   \<and> (JSON_parse logLine = None \<and> accepts (fallback_record logLine)
         \<longrightarrow> firebaseDestination_write JSON_parse coerce accepts logLine lg
             = Inr (lg @ [[(''severity'', JString ''ERROR''), (''message'', JString logLine)]]))
   \<and> (\<forall>parsed e. JSON_parse logLine = Some parsed \<and> mapped_record coerce parsed = Inl e
          \<and> accepts (fallback_record logLine)
         \<longrightarrow> firebaseDestination_write JSON_parse coerce accepts logLine lg
             = Inr (lg @ [[(''severity'', JString ''ERROR''), (''message'', JString logLine)]]))
   \<and> (\<forall>parsed r. JSON_parse logLine = Some parsed \<and> mapped_record coerce parsed = Inr r
          \<and> \<not> accepts r \<and> accepts (fallback_record logLine)
         \<longrightarrow> firebaseDestination_write JSON_parse coerce accepts logLine lg
             = Inr (lg @ [[(''severity'', JString ''ERROR''), (''message'', JString logLine)]]))
   \<and> mapped_record coerce JNull = Inl TypeError"
proof -
  have fb: "fallback_record logLine
      = [(''severity'', JString ''ERROR''), (''message'', JString logLine)]"
    by (simp add: fallback_record_def)
  have nul: "mapped_record coerce JNull = Inl TypeError"
    by (simp add: mapped_record_def)
  have one: "accepts (fallback_record logLine)
      \<longrightarrow> (\<exists>entry. firebaseDestination_write JSON_parse coerce accepts logLine lg
                    = Inr (lg @ [entry]))"
    using write_one_record[of accepts logLine JSON_parse coerce lg] by blast
  have fail: "JSON_parse logLine = None \<and> accepts (fallback_record logLine)
         \<longrightarrow> firebaseDestination_write JSON_parse coerce accepts logLine lg
             = Inr (lg @ [[(''severity'', JString ''ERROR''), (''message'', JString logLine)]])"
    using write_parse_failure[of JSON_parse logLine accepts coerce lg] by (simp add: fb)
  have thrown: "\<forall>parsed e. JSON_parse logLine = Some parsed \<and> mapped_record coerce parsed = Inl e
          \<and> accepts (fallback_record logLine)
         \<longrightarrow> firebaseDestination_write JSON_parse coerce accepts logLine lg
             = Inr (lg @ [[(''severity'', JString ''ERROR''), (''message'', JString logLine)]])"
    using write_thrown[of JSON_parse logLine _ coerce _ accepts lg] by (simp add: fb)
  have rejected: "\<forall>parsed r. JSON_parse logLine = Some parsed \<and> mapped_record coerce parsed = Inr r
          \<and> \<not> accepts r \<and> accepts (fallback_record logLine)
         \<longrightarrow> firebaseDestination_write JSON_parse coerce accepts logLine lg
             = Inr (lg @ [[(''severity'', JString ''ERROR''), (''message'', JString logLine)]])"
    using write_rejected[of JSON_parse logLine _ coerce _ accepts lg] by (simp add: fb)
  have mapped: "\<forall>parsed r. JSON_parse logLine = Some parsed \<and> mapped_record coerce parsed = Inr r
          \<and> accepts r
         \<longrightarrow> firebaseDestination_write JSON_parse coerce accepts logLine lg = Inr (lg @ [r])"
    using write_mapped[of JSON_parse logLine _ coerce _ accepts lg] by blast
  have fields: "\<forall>parsed n. parsed \<noteq> JNull \<and> parsed \<noteq> JUndefined
          \<and> ToNumber coerce (read_field parsed ''level'') = Inr n
         \<longrightarrow> (\<exists>r. mapped_record coerce parsed = Inr r
               \<and> map_of r ''severity'' =
                   Some (case last_write (rest_of parsed) ''severity'' of
                           Some s \<Rightarrow> s
                         | None \<Rightarrow> JString (severity_name (pinoLevelToSeverity n)))
               \<and> map_of r ''message'' =
                   Some (case last_write (rest_of parsed) ''message'' of
                           Some m \<Rightarrow> m
                         | None \<Rightarrow> nullish_or (read_field parsed ''msg'') (JString []))
               \<and> (\<forall>k. k \<noteq> ''severity'' \<and> k \<noteq> ''message''
                     \<longrightarrow> map_of r k = last_write (rest_of parsed) k)
               \<and> (last_write (rest_of parsed) ''severity'' = None
                     \<longrightarrow> accepts_listed_severity r))"
  proof (intro allI impI)
    fix parsed n
    assume h: "parsed \<noteq> JNull \<and> parsed \<noteq> JUndefined
          \<and> ToNumber coerce (read_field parsed ''level'') = Inr n"
    obtain r where r: "mapped_record coerce parsed = Inr r"
      and sev: "map_of r ''severity'' =
         Some (case last_write (rest_of parsed) ''severity'' of
                 Some s \<Rightarrow> s | None \<Rightarrow> JString (severity_name (pinoLevelToSeverity n)))"
      and msg: "map_of r ''message'' =
         Some (case last_write (rest_of parsed) ''message'' of
                 Some m \<Rightarrow> m | None \<Rightarrow> nullish_or (read_field parsed ''msg'') (JString []))"
      and others: "\<forall>k. k \<noteq> ''severity'' \<and> k \<noteq> ''message''
                     \<longrightarrow> map_of r k = last_write (rest_of parsed) k"
      using mapped_record_fields[of parsed coerce n] h by blast
    have listed: "last_write (rest_of parsed) ''severity'' = None \<longrightarrow> accepts_listed_severity r"
    proof
      assume "last_write (rest_of parsed) ''severity'' = None"
      then have "map_of r ''severity'' = Some (JString (severity_name (pinoLevelToSeverity n)))"
        using sev by simp
      then show "accepts_listed_severity r"
        by (rule accepts_listed_mapped_severity)
    qed
    show "\<exists>r. mapped_record coerce parsed = Inr r
               \<and> map_of r ''severity'' =
                   Some (case last_write (rest_of parsed) ''severity'' of
                           Some s \<Rightarrow> s
                         | None \<Rightarrow> JString (severity_name (pinoLevelToSeverity n)))
               \<and> map_of r ''message'' =
                   Some (case last_write (rest_of parsed) ''message'' of
                           Some m \<Rightarrow> m
                         | None \<Rightarrow> nullish_or (read_field parsed ''msg'') (JString []))
               \<and> (\<forall>k. k \<noteq> ''severity'' \<and> k \<noteq> ''message''
                     \<longrightarrow> map_of r k = last_write (rest_of parsed) k)
               \<and> (last_write (rest_of parsed) ''severity'' = None
                     \<longrightarrow> accepts_listed_severity r)"
      by (intro exI[of _ r] conjI) (fact r sev msg others listed)+
  qed
  have listed_fb: "accepts_listed_severity (fallback_record logLine)"
    by (rule accepts_listed_fallback)
  show ?thesis
    by (intro conjI) (fact one listed_fb mapped fields fail thrown rejected nul)+
qed

text \<open>
  A line of the structured logger at level 30 is forwarded as INFO with its message and
  its remaining field; a line that is no JSON is forwarded raw, as ERROR; so is a line
  with a field \<open>severity\<close> that is none of the eight names, on which the native write
  throws.
\<close>

theorem write_never_throws_one_record_witness:
  \<open>(\<lambda>s. if s = ''{"level":30,"time":1,"pid":2,"hostname":"h","msg":"hi","user":"u"}''
          then Some (JObject [(''level'', JNumber (Finite 30)), (''time'', JNumber (Finite 1)),
                 (''pid'', JNumber (Finite 2)), (''hostname'', JString ''h''),
                 (''msg'', JString ''hi''), (''user'', JString ''u'')])
          else None)
      ''{"level":30,"time":1,"pid":2,"hostname":"h","msg":"hi","user":"u"}''
     = Some (JObject [(''level'', JNumber (Finite 30)), (''time'', JNumber (Finite 1)),
                 (''pid'', JNumber (Finite 2)), (''hostname'', JString ''h''),
                 (''msg'', JString ''hi''), (''user'', JString ''u'')])
   \<and> mapped_record (\<lambda>v. Inr NaN)
         (JObject [(''level'', JNumber (Finite 30)), (''time'', JNumber (Finite 1)),
                 (''pid'', JNumber (Finite 2)), (''hostname'', JString ''h''),
                 (''msg'', JString ''hi''), (''user'', JString ''u'')])
     = Inr [(''severity'', JString ''INFO''), (''message'', JString ''hi''), (''user'', JString ''u'')]
   \<and> accepts_listed_severity
        [(''severity'', JString ''INFO''), (''message'', JString ''hi''), (''user'', JString ''u'')]
   \<and> firebaseDestination_write
        (\<lambda>s. if s = ''{"level":30,"time":1,"pid":2,"hostname":"h","msg":"hi","user":"u"}''
          then Some (JObject [(''level'', JNumber (Finite 30)), (''time'', JNumber (Finite 1)),
                 (''pid'', JNumber (Finite 2)), (''hostname'', JString ''h''),
                 (''msg'', JString ''hi''), (''user'', JString ''u'')])
          else None)
        (\<lambda>v. Inr NaN) accepts_listed_severity
        ''{"level":30,"time":1,"pid":2,"hostname":"h","msg":"hi","user":"u"}'' []
     = Inr [[(''severity'', JString ''INFO''), (''message'', JString ''hi''), (''user'', JString ''u'')]]
   \<and> (\<lambda>s. None :: jsvalue option) ''not json'' = None
   \<and> accepts_listed_severity (fallback_record ''not json'')
   \<and> firebaseDestination_write (\<lambda>s. None) (\<lambda>v. Inr NaN) accepts_listed_severity ''not json'' []
     = Inr [[(''severity'', JString ''ERROR''), (''message'', JString ''not json'')]]
   \<and> (\<lambda>s. Some (JObject [(''level'', JNumber (Finite 30)), (''severity'', JString ''high''),
                 (''msg'', JString ''m'')]))
      ''{"level":30,"severity":"high","msg":"m"}''
     = Some (JObject [(''level'', JNumber (Finite 30)), (''severity'', JString ''high''),
                 (''msg'', JString ''m'')])
   \<and> mapped_record (\<lambda>v. Inr NaN)
         (JObject [(''level'', JNumber (Finite 30)), (''severity'', JString ''high''),
                 (''msg'', JString ''m'')])
     = Inr [(''severity'', JString ''high''), (''message'', JString ''m'')]
   \<and> \<not> accepts_listed_severity [(''severity'', JString ''high''), (''message'', JString ''m'')]
   \<and> firebaseDestination_write
        (\<lambda>s. Some (JObject [(''level'', JNumber (Finite 30)), (''severity'', JString ''high''),
                 (''msg'', JString ''m'')]))
        (\<lambda>v. Inr NaN) accepts_listed_severity ''{"level":30,"severity":"high","msg":"m"}'' []
     = Inr [[(''severity'', JString ''ERROR''),
             (''message'', JString ''{"level":30,"severity":"high","msg":"m"}'')]]\<close>
proof -
  let ?line = \<open>''{"level":30,"time":1,"pid":2,"hostname":"h","msg":"hi","user":"u"}''\<close>
  let ?obj = "JObject [(''level'', JNumber (Finite 30)), (''time'', JNumber (Finite 1)),
                 (''pid'', JNumber (Finite 2)), (''hostname'', JString ''h''),
                 (''msg'', JString ''hi''), (''user'', JString ''u'')]"
  let ?parse = "\<lambda>s. if s = ?line then Some ?obj else None"
  let ?coerce = "\<lambda>v::jsvalue. Inr NaN :: js_error + number"
  let ?rec = "[(''severity'', JString ''INFO''), (''message'', JString ''hi''), (''user'', JString ''u'')]"
  let ?line2 = \<open>''{"level":30,"severity":"high","msg":"m"}''\<close>
  let ?obj2 = "JObject [(''level'', JNumber (Finite 30)), (''severity'', JString ''high''),
                 (''msg'', JString ''m'')]"
  let ?parse2 = "\<lambda>s::string. Some ?obj2"
  let ?rec2 = "[(''severity'', JString ''high''), (''message'', JString ''m'')]"
  note t1 = write_never_throws_one_record[of accepts_listed_severity ?line ?parse ?coerce "[]"]
  note t2 = write_never_throws_one_record[of accepts_listed_severity "''not json''"
      "\<lambda>s. None" ?coerce "[]"]
  note t3 = write_never_throws_one_record[of accepts_listed_severity ?line2 ?parse2 ?coerce "[]"]
  have a: "?parse ?line = Some ?obj" by simp
  have b: "mapped_record ?coerce ?obj = Inr ?rec"
    by (simp add: mapped_record_def rest_of_def spread_into_def pinoLevelToSeverity_def)
  have b': "accepts_listed_severity ?rec"
    by (simp add: accepts_listed_severity_def)
  have c: "firebaseDestination_write ?parse ?coerce accepts_listed_severity ?line []
      = Inr ([] @ [?rec])"
    by (rule t1[THEN conjunct2, THEN conjunct2, THEN conjunct1, rule_format,
          OF conjI[OF a conjI[OF b b']]])
  have d: "(\<lambda>s. None :: jsvalue option) ''not json'' = None" by simp
  have d': "accepts_listed_severity (fallback_record ''not json'')"
    by (rule t2[THEN conjunct2, THEN conjunct1])
  have e: "firebaseDestination_write (\<lambda>s. None) ?coerce accepts_listed_severity ''not json'' []
     = Inr ([] @ [[(''severity'', JString ''ERROR''), (''message'', JString ''not json'')]])"
    by (rule t2[THEN conjunct2, THEN conjunct2, THEN conjunct2, THEN conjunct2, THEN conjunct1,
          rule_format, OF conjI[OF d d']])
  have f: "?parse2 ?line2 = Some ?obj2" by simp
  have g: "mapped_record ?coerce ?obj2 = Inr ?rec2"
    by (simp add: mapped_record_def rest_of_def spread_into_def pinoLevelToSeverity_def)
  have g': "\<not> accepts_listed_severity ?rec2"
    by (simp add: accepts_listed_severity_def)
  have g'': "accepts_listed_severity (fallback_record ?line2)"
    by (rule t3[THEN conjunct2, THEN conjunct1])
  have h: "firebaseDestination_write ?parse2 ?coerce accepts_listed_severity ?line2 []
     = Inr ([] @ [[(''severity'', JString ''ERROR''), (''message'', JString ?line2)]])"
    by (rule t3[THEN conjunct2, THEN conjunct2, THEN conjunct2, THEN conjunct2, THEN conjunct2,
          THEN conjunct2, THEN conjunct1, rule_format,
          OF conjI[OF f conjI[OF g conjI[OF g' g'']]]])
  have c': "firebaseDestination_write ?parse ?coerce accepts_listed_severity ?line [] = Inr [?rec]"
    using c by (simp only: append_Nil)
  have e': "firebaseDestination_write (\<lambda>s. None) ?coerce accepts_listed_severity ''not json'' []
     = Inr [[(''severity'', JString ''ERROR''), (''message'', JString ''not json'')]]"
    using e by (simp only: append_Nil)
  have h': "firebaseDestination_write ?parse2 ?coerce accepts_listed_severity ?line2 []
     = Inr [[(''severity'', JString ''ERROR''), (''message'', JString ?line2)]]"
    using h by (simp only: append_Nil)
  show ?thesis
    by (intro conjI) (fact a b b' c' d d' e' f g g' h')+
qed

text \<open>
  C10 as stated fails on a level that is not a number and yet converts to one
  (\<open>null\<close> converts to 0, so the severity is DEBUG), on a line whose remaining fields
  have a \<open>severity\<close> of their own (it replaces the mapped one), and on the line \<open>null\<close>
  (it parses, has no level, and takes the fallback path with severity ERROR).
\<close>

theorem non_numeric_level_counterexample:
  \<open>firebaseDestination_write (\<lambda>s. Some (JObject [(''level'', JNull)])) (\<lambda>v. Inr NaN)
       accepts_listed_severity ''{"level":null}'' []
     = Inr [[(''severity'', JString ''DEBUG''), (''message'', JString [])]]
   \<and> firebaseDestination_write (\<lambda>s. Some (JObject [(''severity'', JString ''INFO'')])) (\<lambda>v. Inr NaN)
       accepts_listed_severity ''{"severity":"INFO"}'' []
     = Inr [[(''severity'', JString ''INFO''), (''message'', JString [])]]
   \<and> firebaseDestination_write (\<lambda>s. Some JNull) (\<lambda>v. Inr NaN) accepts_listed_severity ''null'' []
     = Inr [[(''severity'', JString ''ERROR''), (''message'', JString ''null'')]]\<close>
  by (simp add: firebaseDestination_write_def firebaseLogger_write_def mapped_record_def
      fallback_record_def rest_of_def spread_into_def pinoLevelToSeverity_def
      accepts_listed_severity_def)

text \<open>
  C10, amended. For every input line that parses to a value other than \<open>null\<close> and
  whose level is absent, or converts to NaN, the record built on the normal path has
  severity CRITICAL and message \<open>msg\<close>, or the empty string when \<open>msg\<close> is absent or
  \<open>null\<close>, each replaced by a remaining field named \<open>severity\<close> or \<open>message\<close> if
  the line has one. When the native logger accepts that record (as the runtime's does
  when no remaining field is named \<open>severity\<close>) it is the one record forwarded; when
  the native write throws on it, the \<open>catch\<close> block forwards the raw line with
  severity ERROR instead. An absent level converts to NaN; a level \<open>null\<close>, \<open>true\<close>
  or \<open>false\<close> converts to 0, 1 or 0 and is mapped as that number.
\<close>

theorem absent_level_is_critical:
  "(JSON_parse logLine = Some parsed \<and> parsed \<noteq> JNull \<and> parsed \<noteq> JUndefined
     \<and> (read_field parsed ''level'' = JUndefined
         \<or> ToNumber coerce (read_field parsed ''level'') = Inr NaN)
    \<longrightarrow> (\<exists>r. mapped_record coerce parsed = Inr r
          \<and> map_of r ''severity'' =
              Some (case last_write (rest_of parsed) ''severity'' of
                      Some s \<Rightarrow> s | None \<Rightarrow> JString ''CRITICAL'')
          \<and> map_of r ''message'' =
              Some (case last_write (rest_of parsed) ''message'' of
                      Some m \<Rightarrow> m
                    | None \<Rightarrow> nullish_or (read_field parsed ''msg'') (JString []))
          \<and> (last_write (rest_of parsed) ''severity'' = None \<longrightarrow> accepts_listed_severity r)
          \<and> (accepts r
               \<longrightarrow> firebaseDestination_write JSON_parse coerce accepts logLine lg
                   = Inr (lg @ [r]))
          \<and> (\<not> accepts r \<and> accepts (fallback_record logLine)
               \<longrightarrow> firebaseDestination_write JSON_parse coerce accepts logLine lg
                   = Inr (lg @ [[(''severity'', JString ''ERROR''),
                                 (''message'', JString logLine)]]))))
   \<and> ToNumber coerce JUndefined = Inr NaN
   \<and> ToNumber coerce JNull = Inr (Finite 0)
   \<and> ToNumber coerce (JBool True) = Inr (Finite 1)
   \<and> ToNumber coerce (JBool False) = Inr (Finite 0)
   \<and> pinoLevelToSeverity NaN = CRITICAL
   \<and> pinoLevelToSeverity (Finite 0) = DEBUG
   \<and> pinoLevelToSeverity (Finite 1) = DEBUG"
proof -
  have main: "JSON_parse logLine = Some parsed \<and> parsed \<noteq> JNull \<and> parsed \<noteq> JUndefined
     \<and> (read_field parsed ''level'' = JUndefined
         \<or> ToNumber coerce (read_field parsed ''level'') = Inr NaN)
    \<longrightarrow> (\<exists>r. mapped_record coerce parsed = Inr r
          \<and> map_of r ''severity'' =
              Some (case last_write (rest_of parsed) ''severity'' of
                      Some s \<Rightarrow> s | None \<Rightarrow> JString ''CRITICAL'')
          \<and> map_of r ''message'' =
              Some (case last_write (rest_of parsed) ''message'' of
                      Some m \<Rightarrow> m
                    | None \<Rightarrow> nullish_or (read_field parsed ''msg'') (JString []))
          \<and> (last_write (rest_of parsed) ''severity'' = None \<longrightarrow> accepts_listed_severity r)
          \<and> (accepts r
               \<longrightarrow> firebaseDestination_write JSON_parse coerce accepts logLine lg
                   = Inr (lg @ [r]))
          \<and> (\<not> accepts r \<and> accepts (fallback_record logLine)
               \<longrightarrow> firebaseDestination_write JSON_parse coerce accepts logLine lg
                   = Inr (lg @ [[(''severity'', JString ''ERROR''),
                                 (''message'', JString logLine)]])))"
  proof (intro impI)
    assume h: "JSON_parse logLine = Some parsed \<and> parsed \<noteq> JNull \<and> parsed \<noteq> JUndefined
     \<and> (read_field parsed ''level'' = JUndefined
         \<or> ToNumber coerce (read_field parsed ''level'') = Inr NaN)"
    then have p: "JSON_parse logLine = Some parsed" and n1: "parsed \<noteq> JNull"
      and n2: "parsed \<noteq> JUndefined" by simp_all
    from h have nan: "ToNumber coerce (read_field parsed ''level'') = Inr NaN" by auto
    have crit: "severity_name (pinoLevelToSeverity NaN) = ''CRITICAL''"
      by (simp add: pinoLevelToSeverity_def)
    obtain r where r: "mapped_record coerce parsed = Inr r"
      and sev0: "map_of r ''severity'' =
         Some (case last_write (rest_of parsed) ''severity'' of
                 Some s \<Rightarrow> s | None \<Rightarrow> JString (severity_name (pinoLevelToSeverity NaN)))"
      and msg: "map_of r ''message'' =
         Some (case last_write (rest_of parsed) ''message'' of
                 Some m \<Rightarrow> m | None \<Rightarrow> nullish_or (read_field parsed ''msg'') (JString []))"
      using mapped_record_fields[of parsed coerce NaN] n1 n2 nan by blast
    have sev: "map_of r ''severity'' =
              Some (case last_write (rest_of parsed) ''severity'' of
                      Some s \<Rightarrow> s | None \<Rightarrow> JString ''CRITICAL'')"
      using sev0 crit by (auto split: option.splits)
    have listed: "last_write (rest_of parsed) ''severity'' = None \<longrightarrow> accepts_listed_severity r"
    proof
      assume "last_write (rest_of parsed) ''severity'' = None"
      then have "map_of r ''severity'' = Some (JString (severity_name (pinoLevelToSeverity NaN)))"
        using sev0 by simp
      then show "accepts_listed_severity r"
        by (rule accepts_listed_mapped_severity)
    qed
    have fwd: "accepts r
               \<longrightarrow> firebaseDestination_write JSON_parse coerce accepts logLine lg
                   = Inr (lg @ [r])"
      using write_mapped[of JSON_parse logLine parsed coerce r accepts lg] p r by simp
    have fb: "\<not> accepts r \<and> accepts (fallback_record logLine)
               \<longrightarrow> firebaseDestination_write JSON_parse coerce accepts logLine lg
                   = Inr (lg @ [[(''severity'', JString ''ERROR''),
                                 (''message'', JString logLine)]])"
      using write_rejected[of JSON_parse logLine parsed coerce r accepts lg] p r
      by (simp add: fallback_record_def)
    show "\<exists>r. mapped_record coerce parsed = Inr r
          \<and> map_of r ''severity'' =
              Some (case last_write (rest_of parsed) ''severity'' of
                      Some s \<Rightarrow> s | None \<Rightarrow> JString ''CRITICAL'')
          \<and> map_of r ''message'' =
              Some (case last_write (rest_of parsed) ''message'' of
                      Some m \<Rightarrow> m
                    | None \<Rightarrow> nullish_or (read_field parsed ''msg'') (JString []))
          \<and> (last_write (rest_of parsed) ''severity'' = None \<longrightarrow> accepts_listed_severity r)
          \<and> (accepts r
               \<longrightarrow> firebaseDestination_write JSON_parse coerce accepts logLine lg
                   = Inr (lg @ [r]))
          \<and> (\<not> accepts r \<and> accepts (fallback_record logLine)
               \<longrightarrow> firebaseDestination_write JSON_parse coerce accepts logLine lg
                   = Inr (lg @ [[(''severity'', JString ''ERROR''),
                                 (''message'', JString logLine)]]))"
      by (intro exI[of _ r] conjI) (fact r sev msg listed fwd fb)+
  qed
  have n1: "ToNumber coerce JUndefined = Inr NaN" by simp
  have n2: "ToNumber coerce JNull = Inr (Finite 0)" by simp
  have n3: "ToNumber coerce (JBool True) = Inr (Finite 1)" by simp
  have n4: "ToNumber coerce (JBool False) = Inr (Finite 0)" by simp
  have s1: "pinoLevelToSeverity NaN = CRITICAL" by (simp add: pinoLevelToSeverity_def)
  have s2: "pinoLevelToSeverity (Finite 0) = DEBUG" by (simp add: pinoLevelToSeverity_def)
  have s3: "pinoLevelToSeverity (Finite 1) = DEBUG" by (simp add: pinoLevelToSeverity_def)
  show ?thesis
    by (intro conjI) (fact main n1 n2 n3 n4 s1 s2 s3)+
qed

text \<open>
  A line with a message and no level is forwarded as CRITICAL with that message; a line
  with no level and a \<open>severity\<close> that is none of the eight names is forwarded raw, as
  ERROR.
\<close>

theorem absent_level_is_critical_witness:
  \<open>(\<lambda>s. Some (JObject [(''msg'', JString ''hello'')])) ''{"msg":"hello"}''
      = Some (JObject [(''msg'', JString ''hello'')])
   \<and> JObject [(''msg'', JString ''hello'')] \<noteq> JNull
   \<and> JObject [(''msg'', JString ''hello'')] \<noteq> JUndefined
   \<and> read_field (JObject [(''msg'', JString ''hello'')]) ''level'' = JUndefined
   \<and> firebaseDestination_write (\<lambda>s. Some (JObject [(''msg'', JString ''hello'')]))
         (\<lambda>v. Inr NaN) accepts_listed_severity ''{"msg":"hello"}'' []
       = Inr [[(''severity'', JString ''CRITICAL''), (''message'', JString ''hello'')]]
   \<and> (\<lambda>s. Some (JObject [(''severity'', JString ''BOGUS'')])) ''{"severity":"BOGUS"}''
      = Some (JObject [(''severity'', JString ''BOGUS'')])
   \<and> JObject [(''severity'', JString ''BOGUS'')] \<noteq> JNull
   \<and> JObject [(''severity'', JString ''BOGUS'')] \<noteq> JUndefined
   \<and> read_field (JObject [(''severity'', JString ''BOGUS'')]) ''level'' = JUndefined
   \<and> firebaseDestination_write (\<lambda>s. Some (JObject [(''severity'', JString ''BOGUS'')]))
         (\<lambda>v. Inr NaN) accepts_listed_severity ''{"severity":"BOGUS"}'' []
       = Inr [[(''severity'', JString ''ERROR''), (''message'', JString ''{"severity":"BOGUS"}'')]]\<close>
proof -
  let ?coerce = "\<lambda>v::jsvalue. Inr NaN :: js_error + number"
  let ?obj = "JObject [(''msg'', JString ''hello'')]"
  let ?parse = "\<lambda>s::string. Some ?obj"
  let ?line = \<open>''{"msg":"hello"}''\<close>
  let ?rec = "[(''severity'', JString ''CRITICAL''), (''message'', JString ''hello'')]"
  let ?obj2 = "JObject [(''severity'', JString ''BOGUS'')]"
  let ?parse2 = "\<lambda>s::string. Some ?obj2"
  let ?line2 = \<open>''{"severity":"BOGUS"}''\<close>
  let ?rec2 = "[(''severity'', JString ''BOGUS''), (''message'', JString [])]"
  note t1 = absent_level_is_critical[of ?parse ?line ?obj ?coerce accepts_listed_severity "[]",
      THEN conjunct1, rule_format]
  note t2 = absent_level_is_critical[of ?parse2 ?line2 ?obj2 ?coerce accepts_listed_severity "[]",
      THEN conjunct1, rule_format]
  have a: "?parse ?line = Some ?obj" by simp
  have b1: "?obj \<noteq> JNull" and b2: "?obj \<noteq> JUndefined" by simp_all
  have c: "read_field ?obj ''level'' = JUndefined" by simp
  have m: "mapped_record ?coerce ?obj = Inr ?rec"
    by (simp add: mapped_record_def rest_of_def spread_into_def pinoLevelToSeverity_def)
  have acc: "accepts_listed_severity ?rec"
    by (simp add: accepts_listed_severity_def)
  obtain r where r: "mapped_record ?coerce ?obj = Inr r"
    and fwd: "accepts_listed_severity r
               \<longrightarrow> firebaseDestination_write ?parse ?coerce accepts_listed_severity ?line []
                   = Inr ([] @ [r])"
    using t1[OF conjI[OF a conjI[OF b1 conjI[OF b2 disjI1[OF c]]]]] by blast
  have req: "r = ?rec" using r m by simp
  have d: "firebaseDestination_write ?parse ?coerce accepts_listed_severity ?line [] = Inr [?rec]"
    using fwd acc unfolding req by (simp only: append_Nil)
  have a': "?parse2 ?line2 = Some ?obj2" by simp
  have b1': "?obj2 \<noteq> JNull" and b2': "?obj2 \<noteq> JUndefined" by simp_all
  have c': "read_field ?obj2 ''level'' = JUndefined" by simp
  have m': "mapped_record ?coerce ?obj2 = Inr ?rec2"
    by (simp add: mapped_record_def rest_of_def spread_into_def pinoLevelToSeverity_def)
  have nacc: "\<not> accepts_listed_severity ?rec2"
    by (simp add: accepts_listed_severity_def)
  have accfb: "accepts_listed_severity (fallback_record ?line2)"
    by (rule accepts_listed_fallback)
  obtain r' where r': "mapped_record ?coerce ?obj2 = Inr r'"
    and fb: "\<not> accepts_listed_severity r' \<and> accepts_listed_severity (fallback_record ?line2)
               \<longrightarrow> firebaseDestination_write ?parse2 ?coerce accepts_listed_severity ?line2 []
                   = Inr ([] @ [[(''severity'', JString ''ERROR''),
                                 (''message'', JString ?line2)]])"
    using t2[OF conjI[OF a' conjI[OF b1' conjI[OF b2' disjI1[OF c']]]]] by blast
  have req': "r' = ?rec2" using r' m' by simp
  have d': "firebaseDestination_write ?parse2 ?coerce accepts_listed_severity ?line2 []
      = Inr [[(''severity'', JString ''ERROR''), (''message'', JString ?line2)]]"
    using fb nacc accfb unfolding req' by (simp only: append_Nil simp_thms)
  show ?thesis
    by (intro conjI) (fact a b1 b2 c d a' b1' b2' c' d')+
qed

section \<open>The wrappers\<close>

text \<open>
  When \<open>configure\<close> returns, the wrapper's outcome is the work's, and the flush is
  the one call added after the work.
\<close>

lemma configuration_wrapper_runs_work:
  assumes "configure (current_scope w) = Inr sc"
    and "work (at_work spn sc w) = (result, w')"
  shows "sentryConfigurationWrapper spn configure work w =
     (result, w'\<lparr>calls := calls w' @ [Flush 5000], current_scope := current_scope w\<rparr>)"
proof -
  have "(record_call WithScope (record_call (StartSpan (fst spn) (snd spn)) w))
          \<lparr>current_scope := sc\<rparr> = at_work spn sc w"
    by (simp add: record_call_def at_work_def)
  then show ?thesis
    using assms by (simp add: sentryConfigurationWrapper_def Let_def record_call_def)
qed

lemma capture_wrapper_resolved:
  "work w = (Resolved v, w') \<Longrightarrow>
   sentryCaptureUnhandledExceptionWrapper e work captureContext w = (Resolved v, w')"
  by (simp add: sentryCaptureUnhandledExceptionWrapper_def)

lemma capture_wrapper_rejected:
  "work w = (Rejected error, w') \<Longrightarrow>
   sentryCaptureUnhandledExceptionWrapper e work captureContext w =
     (Rejected error,
      w'\<lparr>calls := calls w'
           @ (if e ''NODE_ENV'' \<noteq> Some ''production''
              then [LoggerError ''Unhandled exception'' error] else [])
           @ [CaptureException error (capture_callback captureContext)]\<rparr>)"
  by (simp add: sentryCaptureUnhandledExceptionWrapper_def Let_def record_call_def)

lemma capture_callback_marks:
  "capture_callback None s = markEventUnhandled s"
  "capture_callback (Some f) s = f (markEventUnhandled s)"
  "eventProcessors (markEventUnhandled s) = eventProcessors s @ [\<lambda>ev. addExceptionMechanism ev False]"
  "mechanism_handled (addExceptionMechanism ev False) = Some False"
  by (simp_all add: capture_callback_def markEventUnhandled_def addEventProcessor_def
      addExceptionMechanism_def)

text \<open>
  C3. When the handler of a wrapped invocation rejects with an error, the wrapper
  rejects with that same error; after the handler, the wrapper logs the error unless
  \<open>NODE_ENV\<close> is \<open>production\<close>, calls \<open>captureException\<close> exactly once, with
  the error and a scope callback that marks the event's mechanism as unhandled, and
  then calls \<open>flush\<close>, before it settles.
\<close>

theorem rejecting_handler_reported_and_rethrown:
  "(configure (current_scope w) = Inr sc
     \<and> work (at_work spn sc w) = (Rejected error, w')
    \<longrightarrow> (\<exists>w''. sentryConfigurationWrapper spn configure
                 (sentryCaptureUnhandledExceptionWrapper e work captureContext) w
               = (Rejected error, w'')
          \<and> calls w'' = calls w'
               @ (if e ''NODE_ENV'' \<noteq> Some ''production''
                  then [LoggerError ''Unhandled exception'' error] else [])
               @ [CaptureException error (capture_callback captureContext), Flush 5000]
          \<and> length (filter is_capture (calls w'')) = length (filter is_capture (calls w')) + 1
          \<and> length (filter is_flush (calls w'')) = length (filter is_flush (calls w')) + 1))
   \<and> capture_callback None s = markEventUnhandled s
   \<and> capture_callback (Some f) s = f (markEventUnhandled s)
   \<and> eventProcessors (markEventUnhandled s)
       = eventProcessors s @ [\<lambda>ev. addExceptionMechanism ev False]
   \<and> mechanism_handled (addExceptionMechanism ev False) = Some False"
proof -
  have main: "\<exists>w''. sentryConfigurationWrapper spn configure
                 (sentryCaptureUnhandledExceptionWrapper e work captureContext) w
               = (Rejected error, w'')
          \<and> calls w'' = calls w'
               @ (if e ''NODE_ENV'' \<noteq> Some ''production''
                  then [LoggerError ''Unhandled exception'' error] else [])
               @ [CaptureException error (capture_callback captureContext), Flush 5000]
          \<and> length (filter is_capture (calls w'')) = length (filter is_capture (calls w')) + 1
          \<and> length (filter is_flush (calls w'')) = length (filter is_flush (calls w')) + 1"
    if cfg: "configure (current_scope w) = Inr sc"
      and rej: "work (at_work spn sc w) = (Rejected error, w')"
  proof -
    let ?logged = "if e ''NODE_ENV'' \<noteq> Some ''production''
                  then [LoggerError ''Unhandled exception'' error] else []"
    let ?w1 = "w'\<lparr>calls := calls w' @ ?logged
                 @ [CaptureException error (capture_callback captureContext)]\<rparr>"
    let ?w2 = "?w1\<lparr>calls := calls ?w1 @ [Flush 5000], current_scope := current_scope w\<rparr>"
    have inner: "sentryCaptureUnhandledExceptionWrapper e work captureContext (at_work spn sc w)
        = (Rejected error, ?w1)"
      using capture_wrapper_rejected[where work = work and w = "at_work spn sc w"
          and error = error and w' = w' and e = e and captureContext = captureContext] rej
      by blast
    have outer: "sentryConfigurationWrapper spn configure
                 (sentryCaptureUnhandledExceptionWrapper e work captureContext) w
               = (Rejected error, ?w2)"
      using configuration_wrapper_runs_work[where configure = configure and w = w and sc = sc
          and work = "sentryCaptureUnhandledExceptionWrapper e work captureContext"
          and spn = spn and result = "Rejected error" and w' = "?w1"] cfg inner
      by simp
    have c: "calls ?w2 = calls w' @ ?logged
               @ [CaptureException error (capture_callback captureContext), Flush 5000]"
      by simp
    have n1: "length (filter is_capture (calls ?w2)) = length (filter is_capture (calls w')) + 1"
      unfolding c by simp
    have n2: "length (filter is_flush (calls ?w2)) = length (filter is_flush (calls w')) + 1"
      unfolding c by simp
    show ?thesis using outer c n1 n2 by blast
  qed
  show ?thesis using main capture_callback_marks by blast
qed

text \<open>A handler rejecting with \<open>boom\<close> in production: span, scope, capture, flush.\<close>

theorem rejecting_handler_reported_and_rethrown_witness:
  "(Inr :: scope \<Rightarrow> string + scope) (current_scope initial_sdk) = Inr empty_scope
   \<and> (\<lambda>w. (Rejected ''boom'' :: (unit, string) outcome, w)) (at_work (''fn'', ''op'') empty_scope initial_sdk)
       = (Rejected ''boom'', at_work (''fn'', ''op'') empty_scope initial_sdk)
   \<and> fst (sentryConfigurationWrapper (''fn'', ''op'') Inr
            (sentryCaptureUnhandledExceptionWrapper [''NODE_ENV'' \<mapsto> ''production'']
               (\<lambda>w. (Rejected ''boom'' :: (unit, string) outcome, w)) None) initial_sdk)
       = Rejected ''boom''
   \<and> calls (snd (sentryConfigurationWrapper (''fn'', ''op'') Inr
            (sentryCaptureUnhandledExceptionWrapper [''NODE_ENV'' \<mapsto> ''production'']
               (\<lambda>w. (Rejected ''boom'' :: (unit, string) outcome, w)) None) initial_sdk))
       = [StartSpan ''fn'' ''op'', WithScope,
          CaptureException ''boom'' (capture_callback None), Flush 5000]"
proof -
  let ?work = "\<lambda>w :: string sdk. (Rejected ''boom'' :: (unit, string) outcome, w)"
  let ?e = "[''NODE_ENV'' \<mapsto> ''production'']"
  let ?w' = "at_work (''fn'', ''op'') empty_scope initial_sdk"
  let ?run = "sentryConfigurationWrapper (''fn'', ''op'') Inr
            (sentryCaptureUnhandledExceptionWrapper ?e ?work None) initial_sdk"
  have a: "(Inr :: scope \<Rightarrow> string + scope) (current_scope initial_sdk) = Inr empty_scope"
    by (simp add: initial_sdk_def)
  have b: "?work ?w' = (Rejected ''boom'', ?w')" by simp
  obtain w'' where r: "?run = (Rejected ''boom'', w'')"
    and c: "calls w'' = calls ?w'
               @ (if ?e ''NODE_ENV'' \<noteq> Some ''production''
                  then [LoggerError ''Unhandled exception'' ''boom''] else [])
               @ [CaptureException ''boom'' (capture_callback None), Flush 5000]"
    using rejecting_handler_reported_and_rethrown[where configure = Inr and w = initial_sdk
        and sc = empty_scope and work = ?work and spn = "(''fn'', ''op'')" and error = "''boom''"
        and w' = ?w' and e = ?e and captureContext = None] a b
    by blast
  have c': "calls w'' = [StartSpan ''fn'' ''op'', WithScope,
          CaptureException ''boom'' (capture_callback None), Flush 5000]"
    using c by (simp add: at_work_def initial_sdk_def)
  show ?thesis using a b r c' by simp
qed

text \<open>
  C6. When the handler of a wrapped invocation resolves with a value, the wrapper
  resolves with that same value, and after the handler the wrapper makes exactly one
  call, \<open>flush\<close> with the budget of 5000 ms, and no capture.
\<close>

theorem resolving_handler_value_and_single_flush:
  "configure (current_scope w) = Inr sc \<and> work (at_work spn sc w) = (Resolved v, w')
    \<longrightarrow> (\<exists>w''. sentryConfigurationWrapper spn configure
                 (sentryCaptureUnhandledExceptionWrapper e work captureContext) w
               = (Resolved v, w'')
          \<and> sentryConfigurationWrapper spn configure work w = (Resolved v, w'')
          \<and> calls w'' = calls w' @ [Flush 5000]
          \<and> length (filter is_flush (calls w'')) = length (filter is_flush (calls w')) + 1
          \<and> length (filter is_capture (calls w'')) = length (filter is_capture (calls w')))"
proof
  assume h: "configure (current_scope w) = Inr sc \<and> work (at_work spn sc w) = (Resolved v, w')"
  let ?w2 = "w'\<lparr>calls := calls w' @ [Flush 5000], current_scope := current_scope w\<rparr>"
  have inner: "sentryCaptureUnhandledExceptionWrapper e work captureContext (at_work spn sc w)
      = (Resolved v, w')"
    using h capture_wrapper_resolved[where work = work and w = "at_work spn sc w" and v = v
        and w' = w' and e = e and captureContext = captureContext]
    by blast
  have outer: "sentryConfigurationWrapper spn configure
                 (sentryCaptureUnhandledExceptionWrapper e work captureContext) w
               = (Resolved v, ?w2)"
    using configuration_wrapper_runs_work[where configure = configure and w = w and sc = sc
        and work = "sentryCaptureUnhandledExceptionWrapper e work captureContext"
        and spn = spn and result = "Resolved v" and w' = w'] h inner
    by simp
  have plain: "sentryConfigurationWrapper spn configure work w = (Resolved v, ?w2)"
    using configuration_wrapper_runs_work[where configure = configure and w = w and sc = sc
        and work = work and spn = spn and result = "Resolved v" and w' = w'] h
    by simp
  have c: "calls ?w2 = calls w' @ [Flush 5000]" by simp
  have n1: "length (filter is_flush (calls ?w2)) = length (filter is_flush (calls w')) + 1"
    unfolding c by simp
  have n2: "length (filter is_capture (calls ?w2)) = length (filter is_capture (calls w'))"
    unfolding c by simp
  show "\<exists>w''. sentryConfigurationWrapper spn configure
                 (sentryCaptureUnhandledExceptionWrapper e work captureContext) w
               = (Resolved v, w'')
          \<and> sentryConfigurationWrapper spn configure work w = (Resolved v, w'')
          \<and> calls w'' = calls w' @ [Flush 5000]
          \<and> length (filter is_flush (calls w'')) = length (filter is_flush (calls w')) + 1
          \<and> length (filter is_capture (calls w'')) = length (filter is_capture (calls w'))"
    using outer plain c n1 n2 by blast
qed

text \<open>A handler resolving with \<open>success\<close>: span, scope, flush.\<close>

theorem resolving_handler_value_and_single_flush_witness:
  "(Inr :: scope \<Rightarrow> string + scope) (current_scope initial_sdk) = Inr empty_scope
   \<and> (\<lambda>w. (Resolved ''success'' :: (string, string) outcome, w))
        (at_work (''fn'', ''op'') empty_scope initial_sdk)
       = (Resolved ''success'', at_work (''fn'', ''op'') empty_scope initial_sdk)
   \<and> fst (sentryConfigurationWrapper (''fn'', ''op'') Inr
            (sentryCaptureUnhandledExceptionWrapper Map.empty
               (\<lambda>w. (Resolved ''success'' :: (string, string) outcome, w)) None) initial_sdk)
       = Resolved ''success''
   \<and> calls (snd (sentryConfigurationWrapper (''fn'', ''op'') Inr
            (sentryCaptureUnhandledExceptionWrapper Map.empty
               (\<lambda>w. (Resolved ''success'' :: (string, string) outcome, w)) None) initial_sdk))
       = [StartSpan ''fn'' ''op'', WithScope, Flush 5000]"
proof -
  let ?work = "\<lambda>w :: string sdk. (Resolved ''success'' :: (string, string) outcome, w)"
  let ?w' = "at_work (''fn'', ''op'') empty_scope initial_sdk"
  let ?run = "sentryConfigurationWrapper (''fn'', ''op'') Inr
            (sentryCaptureUnhandledExceptionWrapper Map.empty ?work None) initial_sdk"
  have a: "(Inr :: scope \<Rightarrow> string + scope) (current_scope initial_sdk) = Inr empty_scope"
    by (simp add: initial_sdk_def)
  have b: "?work ?w' = (Resolved ''success'', ?w')" by simp
  obtain w'' where r: "?run = (Resolved ''success'', w'')"
    and c: "calls w'' = calls ?w' @ [Flush 5000]"
    using resolving_handler_value_and_single_flush[where configure = Inr and w = initial_sdk
        and sc = empty_scope and work = ?work and spn = "(''fn'', ''op'')" and v = "''success''"
        and w' = ?w' and e = Map.empty and captureContext = None] a b
    by blast
  have c': "calls w'' = [StartSpan ''fn'' ''op'', WithScope, Flush 5000]"
    using c by (simp add: at_work_def initial_sdk_def)
  show ?thesis using a b r c' by simp
qed

text \<open>
  C7 as stated fails for the current-generation wrapper: on the event of the
  repository's test, the \<open>Firestore Document\<close> block the handler runs under holds
  the document path and the event's data as they are; it has no \<open>before\<close> and no
  \<open>after\<close>, and nothing in it is stringified.
\<close>

theorem document_change_v2_counterexample:
  "fst (sentryWrapOnDocumentChange Map.empty ''firestore-v2-function''
          (\<lambda>ev. read_document_block) sample_event initial_sdk)
     = Resolved (Some (JObject
         [(''document'', JString ''projects/test/databases/(default)/documents/collection/doc-123''),
          (''data'', JObject [(''data'', JString ''test'')])]))
   \<and> read_field (JObject
         [(''document'', JString ''projects/test/databases/(default)/documents/collection/doc-123''),
          (''data'', JObject [(''data'', JString ''test'')])]) ''before'' = JUndefined
   \<and> read_field (JObject
         [(''document'', JString ''projects/test/databases/(default)/documents/collection/doc-123''),
          (''data'', JObject [(''data'', JString ''test'')])]) ''after'' = JUndefined"
  by (simp add: sentryWrapOnDocumentChange_def sentryInvocationV2Wrapper_def
      sentryConfigurationWrapper_def sentryCaptureUnhandledExceptionWrapper_def
      read_document_block_def record_call_def setContext_def setTag_def Let_def
      sample_event_def initial_sdk_def empty_scope_def)

text \<open>
  C7, amended. Under the legacy v1 write wrapper the handler runs with a
  \<open>Firestore Document\<close> block that carries the params, the id and the path of the
  document, and the before and after bodies stringified as JSON with an indentation of
  2. Under the v2 document-change wrapper the block carries the event's document path
  and the event's data, not stringified.
\<close>

theorem document_change_context_blocks:
  "fst (sentryOnWriteV1Wrapper stringify e name (\<lambda>change ctx. read_document_block) change ctx w)
     = Resolved (Some (JObject
         [(''param'', params ctx),
          (''id'', ref_id (before change)),
          (''path'', ref_path (before change)),
          (''before'', stringify (snapshot_data (before change)) 2),
          (''after'', stringify (snapshot_data (after change)) 2)]))
   \<and> fst (sentryWrapOnDocumentChange e name (\<lambda>ev. read_document_block) ev w)
     = Resolved (Some (JObject [(''document'', ce_document ev), (''data'', ce_data ev)]))"
  by (simp add: sentryOnWriteV1Wrapper_def sentryInvocationV1Wrapper_def
      sentryWrapOnDocumentChange_def sentryInvocationV2Wrapper_def
      sentryConfigurationWrapper_def sentryCaptureUnhandledExceptionWrapper_def
      read_document_block_def record_call_def setContext_def setTag_def Let_def)

end
